theory Spec2Isabelle
  imports Complex_Main
begin

section \<open>Numbers\<close>

text \<open>
  The client computes with Python floats, which are IEEE 754 binary64 numbers (doubles).
  Two models are used. Values that come from tensors, features and metrics, where the
  source tests for NaN and infinity, are modelled by \<open>fval\<close> below, which keeps the special
  values apart. The quantities that the source computes itself by arithmetic on numbers it
  knows (the learning rate, the class weights) are finite doubles: each is modelled as the
  real number it denotes, and every operation rounds its exact result to the nearest
  double, ties to even, as the arithmetic of the machine does.
\<close>

datatype fval = Fin real | PInf | NInf | NaN

definition isnan :: "fval \<Rightarrow> bool" where
  "isnan v = (v = NaN)"

definition isinf :: "fval \<Rightarrow> bool" where
  "isinf v = (v = PInf \<or> v = NInf)"

subsection \<open>Rounding to the nearest double\<close>

text \<open>
  \<open>pow2 k\<close> is the power \<open>2\<^sup>k\<close> for an integer \<open>k\<close>, and \<open>round_even r\<close> the integer nearest
  to \<open>r\<close>, the even one of the two when \<open>r\<close> lies half-way between them.
\<close>

definition pow2 :: "int \<Rightarrow> real" where
  "pow2 k = 2 powr (real_of_int k)"

definition round_even :: "real \<Rightarrow> int" where
  "round_even r =
     (let f = \<lfloor>r\<rfloor>; d = r - of_int f
      in if d < 1 / 2 then f else if 1 / 2 < d then f + 1 else if even f then f else f + 1)"

text \<open>
  A double has 53 significant bits. For \<open>2\<^sup>e \<le> \<bar>x\<bar> < 2\<^sup>e\<^sup>+\<^sup>1\<close> the doubles around \<open>x\<close> are
  the multiples of \<open>2\<^sup>e\<^sup>-\<^sup>5\<^sup>2\<close>; below \<open>2\<^sup>-\<^sup>1\<^sup>0\<^sup>2\<^sup>2\<close>, in the subnormal range, they are the
  multiples of \<open>2\<^sup>-\<^sup>1\<^sup>0\<^sup>7\<^sup>4\<close>. \<open>expo x\<close> is that exponent \<open>e\<close>, never below -1022, and
  \<open>rne x\<close> is \<open>x\<close> rounded to the nearest multiple of the spacing, ties to even: the double
  nearest to \<open>x\<close>. The largest finite double lies just below \<open>2\<^sup>1\<^sup>0\<^sup>2\<^sup>4\<close>. The model has no
  infinities: \<open>rne\<close> is the rounding of the machine for results that round below
  \<open>2\<^sup>1\<^sup>0\<^sup>2\<^sup>4\<close>, and the one operation of this program that can reach that bound, the
  conversion of an integer, tests for it (\<open>float_of_int\<close> below).
\<close>

definition expo :: "real \<Rightarrow> int" where
  "expo x = max \<lfloor>log 2 \<bar>x\<bar>\<rfloor> (- 1022)"

definition rne :: "real \<Rightarrow> real" where
  "rne x = (if x = 0 then 0
            else of_int (round_even (x / pow2 (expo x - 52))) * pow2 (expo x - 52))"

text \<open>
  The operations \<^verbatim>\<open>x + y\<close>, \<^verbatim>\<open>x * y\<close> and \<^verbatim>\<open>x / y\<close> on doubles: the exact result, rounded.
\<close>

definition fadd :: "real \<Rightarrow> real \<Rightarrow> real" where
  "fadd x y = rne (x + y)"

definition fmul :: "real \<Rightarrow> real \<Rightarrow> real" where
  "fmul x y = rne (x * y)"

definition fdiv :: "real \<Rightarrow> real \<Rightarrow> real" where
  "fdiv x y = rne (x / y)"

text \<open>
  NumPy converts the integer operands of a true division, and an integer multiplied with
  a \<^verbatim>\<open>float64\<close>, to \<^verbatim>\<open>float64\<close>, rounding to the nearest double. An \<^verbatim>\<open>int64\<close> is far below the
  overflow threshold.
\<close>

definition np_float64 :: "nat \<Rightarrow> real" where
  "np_float64 n = rne (real n)"

section \<open>Exceptions\<close>

text \<open>
  A Python exception is a value. The built-in exceptions that the client's own statements
  can raise are named; \<open>Raised\<close> stands for any other exception, coming out of a library
  call, with its name. Every \<^verbatim>\<open>except Exception\<close> of the source catches all of them.
\<close>

datatype exn = ValueError | KeyError | IndexError | OverflowError | Raised string

text \<open>
  Python converts an \<^verbatim>\<open>int\<close> that meets a \<^verbatim>\<open>float\<close> in an arithmetic operation to the nearest
  double, and raises \<^verbatim>\<open>OverflowError\<close> (int too large to convert to float) when that is not
  a finite double.
\<close>

definition float_of_int :: "nat \<Rightarrow> exn + real" where
  "float_of_int n = (if 2 ^ 1024 \<le> rne (real n) then Inl OverflowError else Inr (rne (real n)))"

section \<open>Learning-rate schedule\<close>

text \<open>
  \<^verbatim>\<open>
  def lr_schedule(epoch):
      initial_lr = 0.001
      decay = 0.1
      lr = initial_lr * (1.0 / (1.0 + decay * epoch))
      return lr
  \<close>
  Keras calls the schedule with the 0-based index of the epoch, a Python \<^verbatim>\<open>int\<close>. The
  literals \<^verbatim>\<open>0.001\<close> and \<^verbatim>\<open>0.1\<close> denote the doubles nearest to them; \<^verbatim>\<open>decay * epoch\<close>
  converts the epoch to a float; each of the four operations rounds. Once the epoch is
  converted, the product with \<^verbatim>\<open>decay\<close> and the sum are smaller than the epoch or at most 2,
  and the quotient and the last product are at most 1: no operation overflows.
\<close>

definition lr_schedule :: "nat \<Rightarrow> exn + real" where
  "lr_schedule epoch =
     (let initial_lr = rne 0.001; decay = rne 0.1
      in case float_of_int epoch of
           Inl e \<Rightarrow> Inl e
         | Inr ep \<Rightarrow> Inr (fmul initial_lr (fdiv 1.0 (fadd 1.0 (fmul decay ep)))))"

section \<open>Class weights\<close>

text \<open>
  \<^verbatim>\<open>unique, counts = np.unique(self.y_labeled, return_counts=True)\<close>: the distinct labels
  in increasing order, and how often each occurs.
\<close>

definition np_unique :: "int list \<Rightarrow> int list \<times> nat list" where
  "np_unique y = (let unique = sort (remdups y) in (unique, map (count_list y) unique))"

text \<open>
  The test \<^verbatim>\<open>len(unique) == 0 or any(c == 0 for c in counts)\<close> that selects the uniform
  weights.
\<close>

definition degenerate :: "int list \<Rightarrow> bool" where
  "degenerate y =
     (let (unique, counts) = np_unique y
      in length unique = 0 \<or> list_ex (\<lambda>c. c = 0) counts)"

text \<open>
  \<^verbatim>\<open>
  if len(unique) == 0 or any(c == 0 for c in counts):
      class_weights = {i: 1.0 for i in range(6)}
  else:
      total_samples = len(self.y_labeled)
      num_classes = len(unique)
      class_weights = {k: (total_samples / (num_classes * v)) for k, v in zip(unique, counts)}
  \<close>
  The dictionary is kept as the list of its items, in insertion order; its keys are
  distinct in both branches. The division is only reached with a divisor that is not zero.
  \<^verbatim>\<open>total_samples\<close> and \<^verbatim>\<open>num_classes\<close> are Python integers and \<^verbatim>\<open>v\<close> is an \<^verbatim>\<open>int64\<close> of
  NumPy: the product is an \<^verbatim>\<open>int64\<close>, which does not wrap around below \<open>2\<^sup>6\<^sup>3\<close> (a label
  vector of fewer than \<open>2\<^sup>3\<^sup>1\<close> labels stays below), and the true division converts both
  operands to \<^verbatim>\<open>float64\<close> and rounds the quotient.
\<close>

definition class_weights :: "int list \<Rightarrow> (int \<times> real) list" where
  "class_weights y =
     (let (unique, counts) = np_unique y
      in if length unique = 0 \<or> list_ex (\<lambda>c. c = 0) counts
         then map (\<lambda>i. (int i, 1.0)) [0..<6]
         else (let total_samples = length y; num_classes = length unique
               in map (\<lambda>(k, v). (k, fdiv (np_float64 total_samples) (np_float64 (num_classes * v))))
                    (zip unique counts)))"

text \<open>
  \<^verbatim>\<open>sample_weights = np.array([class_weights[label] for label in self.y_labeled])\<close>:
  a label that is not a key raises \<^verbatim>\<open>KeyError\<close>.
\<close>

fun lookup_weights :: "(int \<times> real) list \<Rightarrow> int list \<Rightarrow> exn + real list" where
  "lookup_weights cw [] = Inr []"
| "lookup_weights cw (label # rest) =
     (case map_of cw label of
        None \<Rightarrow> Inl KeyError
      | Some w \<Rightarrow>
          (case lookup_weights cw rest of
             Inl e \<Rightarrow> Inl e
           | Inr ws \<Rightarrow> Inr (w # ws)))"

definition sample_weights :: "int list \<Rightarrow> exn + real list" where
  "sample_weights y = lookup_weights (class_weights y) y"

text \<open>
  The quantity of the specification, \<open>sum(weight(c) * count(c))\<close> over the classes
  present, in the arithmetic of the weights: each class's entry of the dictionary times its
  count, a \<^verbatim>\<open>float64\<close> product, and the products added one after the other from 0.
\<close>

definition weighted_class_total :: "int list \<Rightarrow> real" where
  "weighted_class_total y =
     (let (unique, counts) = np_unique y; cw = class_weights y
      in foldl fadd 0
           (map (\<lambda>(k, c). case map_of cw k of Some w \<Rightarrow> fmul w (np_float64 c) | None \<Rightarrow> 0)
              (zip unique counts)))"

section \<open>Data and collaborators\<close>

text \<open>
  A tensor is the list of its entries; a feature matrix is the list of its rows; labels are
  the integer codes of the failure type. A Keras training history and the dictionaries the
  handlers return are lists of items.
\<close>

type_synonym ndarray = "fval list"
type_synonym features = "fval list list"
type_synonym labels = "int list"
type_synonym history = "(string \<times> fval list) list"

text \<open>
  What the coordinator hands to \<^verbatim>\<open>fit\<close> and \<^verbatim>\<open>evaluate\<close>: either an instance of
  \<^verbatim>\<open>fl.common.Parameters\<close> (its content is left abstract) or something else, here a list
  of arrays, which the handlers first try to convert.
\<close>

datatype 'p received = IsParameters 'p | NotParameters "ndarray list"

text \<open>
  \<^verbatim>\<open>self.metrics_history = {'loss': [], 'accuracy': [], 'f1_score': []}\<close>: a dictionary
  with three fixed keys, each holding a list of (round, value) pairs.
\<close>

record metrics_history =
  loss :: "(int \<times> fval) list"
  accuracy :: "(int \<times> fval) list"
  f1_score :: "(int \<times> fval) list"

text \<open>
  The state that the handlers of \<^verbatim>\<open>FeSEMClient\<close> read and write: the attributes of
  \<^verbatim>\<open>self\<close>, and \<open>model\<close>, the variable of \<^verbatim>\<open>run_client\<close> that the handlers close over.
\<close>

record 'm client =
  model :: 'm
  round :: int
  X_labeled :: features
  y_labeled :: labels
  metrics_history :: metrics_history

text \<open>
  The effects of \<^verbatim>\<open>run_client\<close> that are recorded, in program order: a call of
  \<^verbatim>\<open>smote.fit_resample\<close> (with the \<^verbatim>\<open>k_neighbors\<close> chosen), the start of a connection
  attempt (with its 0-based index), and a call of \<^verbatim>\<open>time.sleep\<close> (with its argument).
\<close>

datatype event = SmoteResample nat | ConnectAttempt nat | Sleep nat

text \<open>
  The libraries the client calls are not part of the repository. Each call is a field of
  the record below, so that every property holds whatever the libraries do; a call that
  can raise returns a sum, \<open>Inl\<close> holding the exception.
  \<^item> \<open>smote k X y\<close>: \<^verbatim>\<open>SMOTE(k_neighbors=k, random_state=42).fit_resample(X, y)\<close>;
  \<^item> \<open>build_model d\<close>: \<^verbatim>\<open>build_model(input_dim, device_name)\<close>, a Keras \<^verbatim>\<open>Sequential\<close>;
  \<^item> \<open>ndarrays_to_parameters\<close>, \<open>parameters_to_ndarrays\<close>: the conversions of \<^verbatim>\<open>fl.common\<close>;
  \<^item> \<open>get_weights\<close>, \<open>set_weights\<close>: \<^verbatim>\<open>model.get_weights()\<close>, \<^verbatim>\<open>model.set_weights(ws)\<close>;
  \<^item> \<open>compile metrics weighted_metrics\<close>: \<^verbatim>\<open>model.compile\<close> with the AdamW optimizer, rate
    0.001, and the sparse categorical cross-entropy;
  \<^item> \<open>keras_fit m X y epochs batch_size sample_weight schedule patience\<close>: \<^verbatim>\<open>model.fit\<close> with
    the learning-rate scheduler and early stopping as callbacks; it returns the history or
    the exception, and the model as training left it;
  \<^item> \<open>keras_evaluate m X y sample_weight\<close>: \<^verbatim>\<open>model.evaluate\<close>, the list of its results;
  \<^item> \<open>predict_classes m X\<close>: \<^verbatim>\<open>np.argmax(model.predict(X), axis=1)\<close>;
  \<^item> \<open>f1_weighted y pred\<close>: \<^verbatim>\<open>f1_score(y, pred, average='weighted')\<close>;
  \<^item> \<open>accuracy_score\<close>: the function of \<^verbatim>\<open>sklearn.metrics\<close>;
  \<^item> \<open>np_save\<close>: \<^verbatim>\<open>np.save(metrics_file, self.metrics_history)\<close>;
  \<^item> \<open>channel_ready a\<close>: \<^verbatim>\<open>grpc.channel_ready_future(channel).result(timeout=30)\<close> at attempt \<open>a\<close>;
  \<^item> \<open>start_numpy_client a c\<close>: the session of attempt \<open>a\<close> with the client \<open>c\<close>; it returns
    when the coordinator ends the session or raises, and leaves the model as the session's
    rounds changed it;
  \<^item> \<open>channel_close a\<close>: \<^verbatim>\<open>channel.close()\<close>.
\<close>

record ('m, 'p) env =
  smote :: "nat \<Rightarrow> features \<Rightarrow> labels \<Rightarrow> exn + (features \<times> labels)"
  build_model :: "nat \<Rightarrow> 'm"
  ndarrays_to_parameters :: "ndarray list \<Rightarrow> exn + 'p"
  parameters_to_ndarrays :: "'p \<Rightarrow> exn + ndarray list"
  get_weights :: "'m \<Rightarrow> ndarray list"
  set_weights :: "'m \<Rightarrow> ndarray list \<Rightarrow> exn + 'm"
  compile :: "string list \<Rightarrow> string list \<Rightarrow> 'm \<Rightarrow> exn + 'm"
  keras_fit :: "'m \<Rightarrow> features \<Rightarrow> labels \<Rightarrow> nat \<Rightarrow> nat \<Rightarrow> real list \<Rightarrow> (nat \<Rightarrow> exn + real) \<Rightarrow> nat
                  \<Rightarrow> (exn + history) \<times> 'm"
  keras_evaluate :: "'m \<Rightarrow> features \<Rightarrow> labels \<Rightarrow> real list \<Rightarrow> exn + fval list"
  predict_classes :: "'m \<Rightarrow> features \<Rightarrow> exn + int list"
  f1_weighted :: "labels \<Rightarrow> int list \<Rightarrow> exn + fval"
  accuracy_score :: "labels \<Rightarrow> int list \<Rightarrow> exn + fval"
  np_save :: "metrics_history \<Rightarrow> exn + unit"
  channel_ready :: "nat \<Rightarrow> exn + unit"
  start_numpy_client :: "nat \<Rightarrow> 'm client \<Rightarrow> (exn + unit) \<times> 'm"
  channel_close :: "nat \<Rightarrow> exn + unit"

section \<open>Class balancing\<close>

text \<open>
  \<^verbatim>\<open>class_dist = pd.Series(y).value_counts()\<close> and \<^verbatim>\<open>min_samples = class_dist.min()\<close>: the
  smallest of the counts of the labels present. The minimum of an empty series is NaN,
  here \<open>None\<close>.
\<close>

definition value_counts :: "labels \<Rightarrow> nat list" where
  "value_counts y = map (count_list y) (remdups y)"

definition min_samples :: "labels \<Rightarrow> nat option" where
  "min_samples y = (case value_counts y of [] \<Rightarrow> None | c # cs \<Rightarrow> Some (fold min cs c))"

text \<open>
  \<^verbatim>\<open>
  def balance_data_with_smote(X, y):
      class_dist = pd.Series(y).value_counts()
      min_samples = class_dist.min()
      if min_samples < 2:
          return X, y
      k_neighbors = min(3, min_samples - 1)
      try:
          smote = SMOTE(k_neighbors=k_neighbors, random_state=42)
          X_balanced, y_balanced = smote.fit_resample(X, y)
          return X_balanced, y_balanced
      except Exception as e:
          return X, y
  \<close>
  With NaN for \<^verbatim>\<open>min_samples\<close> the comparison \<^verbatim>\<open>min_samples < 2\<close> is false and
  \<^verbatim>\<open>min(3, min_samples - 1)\<close> is 3, its first argument. The function returns the dataset
  and the events it caused.
\<close>

definition k_neighbors :: "nat option \<Rightarrow> nat" where
  "k_neighbors ms = (case ms of None \<Rightarrow> 3 | Some n \<Rightarrow> min 3 (n - 1))"

definition balance_data_with_smote ::
  "('m, 'p) env \<Rightarrow> features \<Rightarrow> labels \<Rightarrow> (features \<times> labels) \<times> event list" where
  "balance_data_with_smote env X y =
     (if (case min_samples y of None \<Rightarrow> False | Some n \<Rightarrow> n < 2) then ((X, y), [])
      else (let k = k_neighbors (min_samples y)
            in case smote env k X y of
                 Inr (X_balanced, y_balanced) \<Rightarrow> ((X_balanced, y_balanced), [SmoteResample k])
               | Inl e \<Rightarrow> ((X, y), [SmoteResample k])))"

section \<open>The client's handlers\<close>

text \<open>\<^verbatim>\<open>FeSEMClient.__init__\<close>, with the model the handlers close over.\<close>

definition FeSEMClient :: "'m \<Rightarrow> features \<Rightarrow> labels \<Rightarrow> 'm client" where
  "FeSEMClient m X y =
     \<lparr>model = m, round = 0, X_labeled = X, y_labeled = y,
      metrics_history = \<lparr>loss = [], accuracy = [], f1_score = []\<rparr>\<rparr>"

text \<open>
  \<^verbatim>\<open>
  def get_parameters(self, config):
      weights = model.get_weights()
      if any(np.any(np.isnan(w)) for w in weights):
          raise ValueError("Model weights contain NaN values.")
      return weights
  \<close>
\<close>

definition get_parameters :: "('m, 'p) env \<Rightarrow> 'm client \<Rightarrow> (exn + ndarray list) \<times> 'm client" where
  "get_parameters env self =
     (let weights = get_weights env (model self)
      in if list_ex (\<lambda>w. list_ex isnan w) weights then (Inl ValueError, self)
         else (Inr weights, self))"

text \<open>
  The first statements of \<^verbatim>\<open>fit\<close> after the counter, and of \<^verbatim>\<open>evaluate\<close>, are the same:
  \<^verbatim>\<open>
  if not isinstance(parameters, fl.common.Parameters):
      try:
          parameters = fl.common.ndarrays_to_parameters(parameters)
      except Exception as e:
          raise
  global_weights = fl.common.parameters_to_ndarrays(parameters)
  try:
      model.set_weights(global_weights)
  except ValueError as e:
      raise
  \<close>
  Both handlers re-raise what they catch here, so every exception of the three calls leaves
  the handler.
\<close>

definition set_global_weights :: "('m, 'p) env \<Rightarrow> 'm \<Rightarrow> 'p received \<Rightarrow> exn + 'm" where
  "set_global_weights env m parameters =
     (case (case parameters of
              IsParameters p \<Rightarrow> Inr p
            | NotParameters arrays \<Rightarrow> ndarrays_to_parameters env arrays) of
        Inl e \<Rightarrow> Inl e
      | Inr p \<Rightarrow>
          (case parameters_to_ndarrays env p of
             Inl e \<Rightarrow> Inl e
           | Inr global_weights \<Rightarrow> set_weights env m global_weights))"

text \<open>Reading a dictionary at a key, and a list at index \<open>-1\<close>.\<close>

definition dict_get :: "(string \<times> 'a) list \<Rightarrow> string \<Rightarrow> exn + 'a" where
  "dict_get d k = (case map_of d k of None \<Rightarrow> Inl KeyError | Some v \<Rightarrow> Inr v)"

definition last_item :: "'a list \<Rightarrow> exn + 'a" where
  "last_item xs = (if xs = [] then Inl IndexError else Inr (last xs))"

text \<open>
  The end of \<^verbatim>\<open>fit\<close>, from the history \<^verbatim>\<open>model.fit\<close> returned, with the model's weights
  \<open>ws\<close> and the number of samples \<open>n\<close>:
  \<^verbatim>\<open>
  if not history.history or 'loss' not in history.history:
      return (model.get_weights(), len(self.X_labeled), {"loss": 0.0})
  if any(np.isnan(history.history['loss'])):
      return (model.get_weights(), len(self.X_labeled), {"loss": 0.0})
  logger.info(f"... loss: {history.history['loss'][-1]:.4f}, accuracy: {history.history['accuracy'][-1]:.4f}")
  return (model.get_weights(), len(self.X_labeled), {"loss": float(history.history['loss'][-1])})
  \<close>
  The two tests are those of the source: the dictionary is empty or has no \<^verbatim>\<open>'loss'\<close> key, or
  a loss is NaN. The log line reads the last loss and the last accuracy, and raises where
  one is missing. (Keras appends one value per finished epoch to every series of a history,
  so a series that is present holds a value.)
\<close>

definition fit_result ::
  "history \<Rightarrow> ndarray list \<Rightarrow> nat \<Rightarrow> exn + (ndarray list \<times> nat \<times> (string \<times> fval) list)" where
  "fit_result h ws n =
     (if h = [] \<or> map_of h ''loss'' = None then Inr (ws, n, [(''loss'', Fin 0)])
      else case dict_get h ''loss'' of
             Inl e \<Rightarrow> Inl e
           | Inr losses \<Rightarrow>
               if list_ex isnan losses then Inr (ws, n, [(''loss'', Fin 0)])
               else (case last_item losses of
                       Inl e \<Rightarrow> Inl e
                     | Inr final_loss \<Rightarrow>
                         (case dict_get h ''accuracy'' of
                            Inl e \<Rightarrow> Inl e
                          | Inr accs \<Rightarrow>
                              (case last_item accs of
                                 Inl e \<Rightarrow> Inl e
                               | Inr final_acc \<Rightarrow> Inr (ws, n, [(''loss'', final_loss)])))))"

text \<open>
  \<^verbatim>\<open>
  def fit(self, parameters, config):
      self.round += 1
      (the received parameters are converted and set)
      (the class weights and the sample weights are computed)
      model.compile(optimizer=..., loss='sparse_categorical_crossentropy', metrics=['accuracy'])
      history = model.fit(self.X_labeled, self.y_labeled, epochs=5, batch_size=64,
                          sample_weight=sample_weights,
                          callbacks=[lr_scheduler, early_stopping], verbose=0)
      (the result is built from the history)
  \<close>
  An exception leaves the handler with the state as the statements before it left it.
\<close>

definition fit ::
  "('m, 'p) env \<Rightarrow> 'p received \<Rightarrow> 'm client
     \<Rightarrow> (exn + (ndarray list \<times> nat \<times> (string \<times> fval) list)) \<times> 'm client" where
  "fit env parameters self =
     (let s1 = self\<lparr>round := round self + 1\<rparr>
      in case set_global_weights env (model s1) parameters of
           Inl e \<Rightarrow> (Inl e, s1)
         | Inr m1 \<Rightarrow>
             (case sample_weights (y_labeled s1) of
                Inl e \<Rightarrow> (Inl e, s1\<lparr>model := m1\<rparr>)
              | Inr sw \<Rightarrow>
                  (case compile env [''accuracy''] [] m1 of
                     Inl e \<Rightarrow> (Inl e, s1\<lparr>model := m1\<rparr>)
                   | Inr m2 \<Rightarrow>
                       (case keras_fit env m2 (X_labeled s1) (y_labeled s1) 5 64 sw lr_schedule 3 of
                          (Inl e, m3) \<Rightarrow> (Inl e, s1\<lparr>model := m3\<rparr>)
                        | (Inr h, m3) \<Rightarrow>
                            (fit_result h (get_weights env m3) (length (X_labeled s1)),
                             s1\<lparr>model := m3\<rparr>)))))"

text \<open>
  The per-class accuracy of \<^verbatim>\<open>evaluate\<close>, computed for the log only:
  \<^verbatim>\<open>
  class_acc = {}
  for label in range(6):
      mask = self.y_labeled == label
      if mask.sum() > 0:
          class_acc[label] = accuracy_score(self.y_labeled[mask], y_pred_classes[mask])
  \<close>
  Indexing the predictions with a mask of another length raises \<^verbatim>\<open>IndexError\<close>.
\<close>

fun class_acc :: "('m, 'p) env \<Rightarrow> labels \<Rightarrow> int list \<Rightarrow> int list \<Rightarrow> exn + (int \<times> fval) list" where
  "class_acc env y pred [] = Inr []"
| "class_acc env y pred (label # rest) =
     (if 0 < count_list y label
      then (if length pred \<noteq> length y then Inl IndexError
            else case accuracy_score env (filter (\<lambda>t. t = label) y)
                        (map snd (filter (\<lambda>(t, q). t = label) (zip y pred))) of
                   Inl e \<Rightarrow> Inl e
                 | Inr a \<Rightarrow>
                     (case class_acc env y pred rest of
                        Inl e \<Rightarrow> Inl e
                      | Inr acc \<Rightarrow> Inr ((label, a) # acc)))
      else class_acc env y pred rest)"

text \<open>
  The body of the \<^verbatim>\<open>try\<close> of \<^verbatim>\<open>evaluate\<close>; it yields the loss, the weighted accuracy
  and the F1 score that the statements after it use.
  \<^verbatim>\<open>
  evaluation_results = model.evaluate(self.X_labeled, self.y_labeled,
                                      sample_weight=sample_weights, verbose=0)
  loss, unweighted_acc, weighted_acc = evaluation_results
  y_pred = model.predict(self.X_labeled, verbose=0)
  y_pred_classes = np.argmax(y_pred, axis=1)
  f1 = f1_score(self.y_labeled, y_pred_classes, average='weighted')
  (the per-class accuracy)
  \<close>
  Unpacking a list that does not hold three results raises \<^verbatim>\<open>ValueError\<close>.
\<close>

definition evaluation_block ::
  "('m, 'p) env \<Rightarrow> 'm \<Rightarrow> features \<Rightarrow> labels \<Rightarrow> real list \<Rightarrow> exn + (fval \<times> fval \<times> fval)" where
  "evaluation_block env m X y sw =
     (case keras_evaluate env m X y sw of
        Inl e \<Rightarrow> Inl e
      | Inr evaluation_results \<Rightarrow>
          (case evaluation_results of
             [l, unweighted_acc, weighted_acc] \<Rightarrow>
               (case predict_classes env m X of
                  Inl e \<Rightarrow> Inl e
                | Inr y_pred_classes \<Rightarrow>
                    (case f1_weighted env y y_pred_classes of
                       Inl e \<Rightarrow> Inl e
                     | Inr f1 \<Rightarrow>
                         (case class_acc env y y_pred_classes (map int [0..<6]) of
                            Inl e \<Rightarrow> Inl e
                          | Inr accs \<Rightarrow> Inr (l, weighted_acc, f1))))
           | _ \<Rightarrow> Inl ValueError))"

text \<open>The fallback \<^verbatim>\<open>return 0.0, 0, {"accuracy": 0.0, "f1_score": 0.0}\<close>.\<close>

definition zero_metrics :: "fval \<times> nat \<times> (string \<times> fval) list" where
  "zero_metrics = (Fin 0, 0, [(''accuracy'', Fin 0), (''f1_score'', Fin 0)])"

text \<open>
  \<^verbatim>\<open>
  def evaluate(self, parameters, config):
      (the received parameters are converted and set)
      (the class weights and the sample weights are computed)
      model.compile(..., metrics=['accuracy'], weighted_metrics=['accuracy'])
      if len(self.X_labeled) == 0 or len(self.y_labeled) == 0:
          return 0.0, 0, {"accuracy": 0.0, "f1_score": 0.0}
      try:
          (the block above)
      except Exception as e:
          return 0.0, 0, {"accuracy": 0.0, "f1_score": 0.0}
      self.metrics_history['loss'].append((self.round, float(loss)))
      self.metrics_history['accuracy'].append((self.round, float(weighted_acc)))
      self.metrics_history['f1_score'].append((self.round, float(f1)))
      np.save(metrics_file, self.metrics_history)
      return loss, len(self.X_labeled), {"accuracy": weighted_acc, "f1_score": f1}
  \<close>
\<close>

definition evaluate ::
  "('m, 'p) env \<Rightarrow> 'p received \<Rightarrow> 'm client
     \<Rightarrow> (exn + (fval \<times> nat \<times> (string \<times> fval) list)) \<times> 'm client" where
  "evaluate env parameters self =
     (case set_global_weights env (model self) parameters of
        Inl e \<Rightarrow> (Inl e, self)
      | Inr m1 \<Rightarrow>
          (case sample_weights (y_labeled self) of
             Inl e \<Rightarrow> (Inl e, self\<lparr>model := m1\<rparr>)
           | Inr sw \<Rightarrow>
               (case compile env [''accuracy''] [''accuracy''] m1 of
                  Inl e \<Rightarrow> (Inl e, self\<lparr>model := m1\<rparr>)
                | Inr m2 \<Rightarrow>
                    (let s2 = self\<lparr>model := m2\<rparr>
                     in if length (X_labeled self) = 0 \<or> length (y_labeled self) = 0
                        then (Inr zero_metrics, s2)
                        else (case evaluation_block env m2 (X_labeled self) (y_labeled self) sw of
                                Inl e \<Rightarrow> (Inr zero_metrics, s2)
                              | Inr (l, weighted_acc, f1) \<Rightarrow>
                                  (let mh = metrics_history self;
                                       mh' = \<lparr>loss = loss mh @ [(round self, l)],
                                              accuracy = accuracy mh @ [(round self, weighted_acc)],
                                              f1_score = f1_score mh @ [(round self, f1)]\<rparr>;
                                       s3 = s2\<lparr>metrics_history := mh'\<rparr>
                                   in case np_save env mh' of
                                        Inl e \<Rightarrow> (Inl e, s3)
                                      | Inr u \<Rightarrow>
                                          (Inr (l, length (X_labeled self),
                                                [(''accuracy'', weighted_acc), (''f1_score'', f1)]),
                                           s3)))))))"

text \<open>
  A request of the coordinator, and the state of the client after serving a list of them in
  order, whatever each handler returned or raised.
\<close>

datatype 'p request = GetParameters | Fit "'p received" | Evaluate "'p received"

fun serve :: "('m, 'p) env \<Rightarrow> 'm client \<Rightarrow> 'p request \<Rightarrow> 'm client" where
  "serve env self GetParameters = snd (get_parameters env self)"
| "serve env self (Fit parameters) = snd (fit env parameters self)"
| "serve env self (Evaluate parameters) = snd (evaluate env parameters self)"

definition serve_all :: "('m, 'p) env \<Rightarrow> 'm client \<Rightarrow> 'p request list \<Rightarrow> 'm client" where
  "serve_all env self requests = foldl (serve env) self requests"

fun is_fit :: "'p request \<Rightarrow> bool" where
  "is_fit (Fit parameters) = True"
| "is_fit r = False"

section \<open>Start-up and connection\<close>

text \<open>
  The start of \<^verbatim>\<open>run_client\<close>, before the connection loop:
  \<^verbatim>\<open>
  X_dev, y_dev = balance_data_with_smote(X_dev, y_dev)
  logger.info(f"... min: {np.min(X_dev):.4f}, max: {np.max(X_dev):.4f}")
  if np.any(np.isnan(X_dev)) or np.any(np.isinf(X_dev)):
      raise ValueError("Input data X_dev contains NaN or Inf values.")
  if np.any(np.isnan(y_dev)) or np.any(np.isinf(y_dev)):
      raise ValueError("Labels y_dev contain NaN or Inf values.")
  model = build_model(X_dev.shape[1], device_name)
  X_labeled, y_labeled = X_dev, y_dev
  \<close>
  \<^verbatim>\<open>np.min\<close> of an array without entries raises \<^verbatim>\<open>ValueError\<close>. The labels are integers,
  so the test of the labels never fires. The result is the model and the dataset that
  every client object of this run is built from.
\<close>

definition prepare ::
  "('m, 'p) env \<Rightarrow> features \<Rightarrow> labels \<Rightarrow> (exn + ('m \<times> features \<times> labels)) \<times> event list" where
  "prepare env X_dev y_dev =
     (case balance_data_with_smote env X_dev y_dev of
        ((X, y), events) \<Rightarrow>
          if concat X = [] then (Inl ValueError, events)
          else if list_ex isnan (concat X) \<or> list_ex isinf (concat X) then (Inl ValueError, events)
          else (Inr (build_model env (case X of [] \<Rightarrow> 0 | row # rows \<Rightarrow> length row), X, y), events))"

definition max_retries :: nat where
  "max_retries = 10"

definition retry_delay :: nat where
  "retry_delay = 10"

text \<open>
  The body of the \<^verbatim>\<open>try\<close> of one attempt:
  \<^verbatim>\<open>
  channel = grpc.insecure_channel(server_address)
  grpc.channel_ready_future(channel).result(timeout=30)
  fl.client.start_numpy_client(server_address=server_address,
                               client=FeSEMClient(X_labeled, y_labeled))
  channel.close()
  \<close>
\<close>

definition attempt_body ::
  "('m, 'p) env \<Rightarrow> 'm \<Rightarrow> features \<Rightarrow> labels \<Rightarrow> nat \<Rightarrow> (exn + unit) \<times> 'm" where
  "attempt_body env m X y attempt =
     (case channel_ready env attempt of
        Inl e \<Rightarrow> (Inl e, m)
      | Inr u \<Rightarrow>
          (case start_numpy_client env attempt (FeSEMClient m X y) of
             (Inl e, m') \<Rightarrow> (Inl e, m')
           | (Inr u', m') \<Rightarrow> (channel_close env attempt, m')))"

text \<open>
  \<^verbatim>\<open>
  for attempt in range(max_retries):
      try:
          (the body above)
          break
      except Exception as e:
          if attempt < max_retries - 1:
              time.sleep(retry_delay)
          else:
              raise
  \<close>
  The loop runs over the attempts that are left.
\<close>

fun connect_loop ::
  "('m, 'p) env \<Rightarrow> 'm \<Rightarrow> features \<Rightarrow> labels \<Rightarrow> nat list \<Rightarrow> (exn + unit) \<times> event list" where
  "connect_loop env m X y [] = (Inr (), [])"
| "connect_loop env m X y (attempt # rest) =
     (case attempt_body env m X y attempt of
        (Inr u, m') \<Rightarrow> (Inr (), [ConnectAttempt attempt])
      | (Inl e, m') \<Rightarrow>
          if attempt < max_retries - 1
          then (case connect_loop env m' X y rest of
                  (r, events) \<Rightarrow> (r, ConnectAttempt attempt # Sleep retry_delay # events))
          else (Inl e, [ConnectAttempt attempt]))"

definition run_client :: "('m, 'p) env \<Rightarrow> features \<Rightarrow> labels \<Rightarrow> (exn + unit) \<times> event list" where
  "run_client env X_dev y_dev =
     (case prepare env X_dev y_dev of
        (Inl e, events) \<Rightarrow> (Inl e, events)
      | (Inr (m, X, y), events) \<Rightarrow>
          (case connect_loop env m X y [0..<max_retries] of
             (r, events') \<Rightarrow> (r, events @ events')))"

section \<open>A concrete environment\<close>

text \<open>
  The concrete instances below run the client in a small environment. Its model is the
  list of its weight arrays; \<open>set_weights\<close> refuses arrays of other lengths, as Keras
  refuses other shapes; training and evaluation return fixed results; the oversampler
  repeats the last sample once; the channel never becomes ready. An instance that needs a
  library to behave otherwise updates the field.
\<close>

definition demo_env :: "(ndarray list, ndarray list) env" where
  "demo_env =
     \<lparr>smote = (\<lambda>k X y. Inr (X @ [last X], y @ [last y])),
      build_model = (\<lambda>d. [replicate d (Fin 0)]),
      ndarrays_to_parameters = Inr,
      parameters_to_ndarrays = Inr,
      get_weights = (\<lambda>m. m),
      set_weights = (\<lambda>m ws. if map length ws = map length m then Inr ws else Inl ValueError),
      compile = (\<lambda>metrics weighted_metrics m. Inr m),
      keras_fit = (\<lambda>m X y epochs batch_size sw schedule patience.
                     (Inr [(''loss'', [Fin 1]), (''accuracy'', [Fin 1])], m)),
      keras_evaluate = (\<lambda>m X y sw. Inr [Fin 1, Fin 1, Fin 1]),
      predict_classes = (\<lambda>m X. Inr (map (\<lambda>row. 0) X)),
      f1_weighted = (\<lambda>y pred. Inr (Fin 1)),
      accuracy_score = (\<lambda>y pred. Inr (Fin 1)),
      np_save = (\<lambda>h. Inr ()),
      channel_ready = (\<lambda>a. Inl (Raised ''FutureTimeoutError'')),
      start_numpy_client = (\<lambda>a c. (Inr (), model c)),
      channel_close = (\<lambda>a. Inr ())\<rparr>"

section \<open>Predicates of the properties\<close>

text \<open>The three series of the metrics history have the same length.\<close>

definition series_aligned :: "metrics_history \<Rightarrow> bool" where
  "series_aligned h =
     (length (loss h) = length (accuracy h) \<and> length (accuracy h) = length (f1_score h))"


text \<open>The test of \<^verbatim>\<open>get_parameters\<close>: some array holds a NaN.\<close>

definition has_nan :: "ndarray list \<Rightarrow> bool" where
  "has_nan weights = list_ex (\<lambda>w. list_ex isnan w) weights"

text \<open>
  \<open>close_to k v x\<close>: the number \<open>x\<close> lies within \<open>k\<close> roundings of \<open>v\<close>, each rounding
  changing a value by at most the relative amount \<open>2\<^sup>-\<^sup>5\<^sup>3\<close>.
\<close>

definition close_to :: "nat \<Rightarrow> real \<Rightarrow> real \<Rightarrow> bool" where
  "close_to k v x = (v * (1 - 1 / 2 ^ 53) ^ k \<le> x \<and> x \<le> v * (1 + 1 / 2 ^ 53) ^ k)"

section \<open>Properties\<close>

subsection \<open>Rounding to the nearest double\<close>

text \<open>
  The facts about the rounding that the properties below rest on: it is monotone, it
  changes a number of the normal range by at most the relative amount \<open>2\<^sup>-\<^sup>5\<^sup>3\<close>, it keeps the
  powers of two and the integers below \<open>2\<^sup>5\<^sup>3\<close>, and at a number whose exponent is known it is
  computed by rounding the scaled number to an integer (\<open>rne_eval\<close>, \<open>rne_is\<close>).
\<close>

lemma pow2_pos [simp]: "0 < pow2 k"
  by (simp add: pow2_def)

lemma pow2_nonneg [simp]: "0 \<le> pow2 k"
  by (simp add: pow2_def)

lemma pow2_neq0 [simp]: "pow2 k \<noteq> 0"
  by (simp add: pow2_def)

lemma pow2_add: "pow2 (a + b) = pow2 a * pow2 b"
  by (simp add: pow2_def powr_add)

lemma pow2_diff: "pow2 (a - b) = pow2 a / pow2 b"
  by (simp add: pow2_def powr_diff)

lemma pow2_0 [simp]: "pow2 0 = 1"
  by (simp add: pow2_def)

lemma pow2_nat: "pow2 (int n) = 2 ^ n"
  by (simp add: pow2_def powr_realpow)

lemma pow2_neg_nat: "pow2 (- int n) = 1 / 2 ^ n"
  by (simp add: pow2_def powr_minus powr_realpow inverse_eq_divide)

lemma pow2_numeral: "pow2 (numeral n) = 2 ^ numeral n"
  using pow2_nat [of "numeral n"] by simp

lemma pow2_neg_numeral: "pow2 (- numeral n) = 1 / 2 ^ numeral n"
  using pow2_neg_nat [of "numeral n"] by simp

lemma pow2_mono: "a \<le> b \<Longrightarrow> pow2 a \<le> pow2 b"
  by (simp add: pow2_def)

lemma pow2_less: "a < b \<Longrightarrow> pow2 a < pow2 b"
  by (simp add: pow2_def)

lemma round_even_of_int [simp]: "round_even (of_int k) = k"
  by (simp add: round_even_def)

lemma round_even_cases:
  "round_even r = \<lfloor>r\<rfloor> \<or> round_even r = \<lfloor>r\<rfloor> + 1"
  by (simp add: round_even_def Let_def)

lemma round_even_lower: "of_int a \<le> r \<Longrightarrow> a \<le> round_even r"
proof -
  assume "of_int a \<le> r"
  then have "a \<le> \<lfloor>r\<rfloor>" by (simp add: le_floor_iff)
  then show ?thesis using round_even_cases [of r] by auto
qed

lemma round_even_upper: "r \<le> of_int b \<Longrightarrow> round_even r \<le> b"
proof -
  assume le: "r \<le> of_int b"
  show ?thesis
  proof (cases "r = of_int b")
    case True
    then show ?thesis by simp
  next
    case False
    then have "r < of_int b" using le by simp
    then have "\<lfloor>r\<rfloor> < b" by (simp add: floor_less_iff)
    then show ?thesis using round_even_cases [of r] by auto
  qed
qed

lemma round_even_err: "\<bar>of_int (round_even r) - r\<bar> \<le> 1 / 2"
proof -
  have "of_int \<lfloor>r\<rfloor> \<le> r" and "r < of_int \<lfloor>r\<rfloor> + 1"
    by linarith+
  then show ?thesis
    by (auto simp: round_even_def Let_def)
qed

lemma round_even_mono:
  assumes "r \<le> s"
  shows "round_even r \<le> round_even s"
proof (cases "\<lfloor>r\<rfloor> = \<lfloor>s\<rfloor>")
  case True
  then show ?thesis using assms by (auto simp: round_even_def Let_def)
next
  case False
  then have "\<lfloor>r\<rfloor> < \<lfloor>s\<rfloor>"
    using assms floor_mono [of r s] by linarith
  then have "round_even r \<le> \<lfloor>s\<rfloor>"
    using round_even_cases [of r] by auto
  also have "\<dots> \<le> round_even s"
    using round_even_cases [of s] by auto
  finally show ?thesis .
qed

lemma expo_ge: "- 1022 \<le> expo x"
  by (simp add: expo_def)

lemma expo_eqI:
  assumes "pow2 k \<le> x" and "x < pow2 (k + 1)" and "- 1022 \<le> k"
  shows "expo x = k"
proof -
  have pos: "0 < x" using assms(1) pow2_pos [of k] by linarith
  have "\<lfloor>log 2 x\<rfloor> = k"
    using assms(1,2) pos by (simp add: floor_log_eq_powr_iff pow2_def)
  then show ?thesis using assms(3) pos by (simp add: expo_def)
qed

lemma expo_subnormal:
  assumes "0 < x" and "x < pow2 (- 1022)"
  shows "expo x = - 1022"
proof -
  have "log 2 x < real_of_int (- 1022)"
    using assms unfolding pow2_def by (subst log_less_iff) simp_all
  then have "\<lfloor>log 2 x\<rfloor> < - 1022"
    by (simp only: floor_less_iff)
  then show ?thesis using assms(1) by (simp add: expo_def)
qed

lemma expo_normal:
  assumes "pow2 (- 1022) \<le> x"
  shows "pow2 (expo x) \<le> x \<and> x < pow2 (expo x + 1)"
proof -
  have pos: "0 < x" using assms pow2_pos [of "- 1022"] by linarith
  define k where "k = \<lfloor>log 2 x\<rfloor>"
  have k: "pow2 k \<le> x \<and> x < pow2 (k + 1)"
    using floor_log_eq_powr_iff [of x 2 k] pos by (simp add: k_def pow2_def)
  have "- 1022 \<le> k"
  proof (rule ccontr)
    assume "\<not> - 1022 \<le> k"
    then have "k + 1 \<le> - 1022" by simp
    then have "pow2 (k + 1) \<le> pow2 (- 1022)" by (rule pow2_mono)
    then show False using k assms by linarith
  qed
  then have "expo x = k" using pos by (simp add: expo_def k_def)
  then show ?thesis using k by simp
qed

lemma expo_upper:
  assumes "0 < x"
  shows "x < pow2 (expo x + 1)"
proof (cases "pow2 (- 1022) \<le> x")
  case True
  then show ?thesis using expo_normal by blast
next
  case False
  then have "expo x = - 1022" using assms expo_subnormal by simp
  moreover have "pow2 (- 1022) < pow2 (- 1022 + 1)" by (rule pow2_less) simp
  ultimately show ?thesis using False by simp
qed

lemma expo_mono:
  assumes "0 < x" and "x \<le> y"
  shows "expo x \<le> expo y"
proof (cases "pow2 (- 1022) \<le> x")
  case False
  then show ?thesis using assms expo_subnormal expo_ge [of y] by simp
next
  case True
  then have x: "pow2 (expo x) \<le> x" using expo_normal by blast
  have "y < pow2 (expo y + 1)" using assms expo_upper [of y] by simp
  then have "pow2 (expo x) < pow2 (expo y + 1)" using x assms(2) by linarith
  then have "\<not> expo y + 1 \<le> expo x"
    using pow2_mono [of "expo y + 1" "expo x"] by linarith
  then show ?thesis by simp
qed

lemma scaled_upper:
  assumes "0 < x"
  shows "x / pow2 (expo x - 52) < pow2 53"
proof -
  have "x < pow2 (expo x + 1)" using assms by (rule expo_upper)
  also have "pow2 (expo x + 1) = pow2 53 * pow2 (expo x - 52)"
    by (simp add: pow2_add [symmetric] algebra_simps)
  finally show ?thesis by (simp add: pos_divide_less_eq)
qed

lemma scaled_lower:
  assumes "pow2 (- 1022) \<le> x"
  shows "pow2 52 \<le> x / pow2 (expo x - 52)"
proof -
  have "pow2 52 * pow2 (expo x - 52) = pow2 (expo x)"
    by (simp add: pow2_add [symmetric])
  also have "\<dots> \<le> x" using assms expo_normal by blast
  finally show ?thesis by (simp add: pos_le_divide_eq)
qed

lemma rne_0 [simp]: "rne 0 = 0"
  by (simp add: rne_def)

lemma rne_upper:
  assumes "0 < x"
  shows "rne x \<le> pow2 (expo x + 1)"
proof -
  have "x / pow2 (expo x - 52) \<le> of_int (2 ^ 53)"
    using scaled_upper [OF assms] by (simp add: pow2_numeral)
  then have "round_even (x / pow2 (expo x - 52)) \<le> 2 ^ 53"
    by (rule round_even_upper)
  then have "real_of_int (round_even (x / pow2 (expo x - 52))) \<le> pow2 53"
    by (simp add: pow2_numeral)
  then have "rne x \<le> pow2 53 * pow2 (expo x - 52)"
    using assms by (simp add: rne_def mult_right_mono)
  then show ?thesis by (simp add: pow2_add [symmetric] algebra_simps)
qed

lemma rne_lower:
  assumes "pow2 (- 1022) \<le> x"
  shows "pow2 (expo x) \<le> rne x"
proof -
  have pos: "0 < x" using assms pow2_pos [of "- 1022"] by linarith
  have "of_int (2 ^ 52) \<le> x / pow2 (expo x - 52)"
    using scaled_lower [OF assms] by (simp add: pow2_numeral)
  then have "2 ^ 52 \<le> round_even (x / pow2 (expo x - 52))"
    by (rule round_even_lower)
  then have "pow2 52 \<le> real_of_int (round_even (x / pow2 (expo x - 52)))"
    by (simp add: pow2_numeral)
  then have "pow2 52 * pow2 (expo x - 52) \<le> rne x"
    using pos by (simp add: rne_def mult_right_mono)
  then show ?thesis by (simp add: pow2_add [symmetric])
qed

lemma rne_nonneg:
  assumes "0 \<le> x"
  shows "0 \<le> rne x"
proof (cases "x = 0")
  case True
  then show ?thesis by simp
next
  case False
  then have "0 \<le> x / pow2 (expo x - 52)" using assms by simp
  then have "0 \<le> round_even (x / pow2 (expo x - 52))"
    using round_even_lower [of 0] by simp
  then show ?thesis using False by (simp add: rne_def)
qed

lemma rne_mono:
  assumes "0 \<le> x" and "x \<le> y"
  shows "rne x \<le> rne y"
proof (cases "x = 0")
  case True
  then show ?thesis using assms rne_nonneg by simp
next
  case False
  then have x: "0 < x" and y: "0 < y" using assms by simp_all
  have le: "expo x \<le> expo y" using x assms(2) by (rule expo_mono)
  show ?thesis
  proof (cases "expo x = expo y")
    case True
    have "x / pow2 (expo y - 52) \<le> y / pow2 (expo y - 52)"
      using assms(2) by (simp add: divide_right_mono)
    then have "round_even (x / pow2 (expo y - 52)) \<le> round_even (y / pow2 (expo y - 52))"
      by (rule round_even_mono)
    then show ?thesis using x y True by (simp add: rne_def)
  next
    case False
    then have lt: "expo x + 1 \<le> expo y" using le by simp
    have "\<not> y < pow2 (- 1022)"
      using expo_subnormal [OF y] expo_ge [of x] lt by auto
    then have "pow2 (expo y) \<le> rne y" using rne_lower by simp
    moreover have "rne x \<le> pow2 (expo x + 1)" using x by (rule rne_upper)
    moreover have "pow2 (expo x + 1) \<le> pow2 (expo y)" using lt by (rule pow2_mono)
    ultimately show ?thesis by linarith
  qed
qed

lemma rne_err:
  assumes "pow2 (- 1022) \<le> x"
  shows "\<bar>rne x - x\<bar> \<le> x / 2 ^ 53"
proof -
  have pos: "0 < x" using assms pow2_pos [of "- 1022"] by linarith
  define u where "u = pow2 (expo x - 52)"
  have u: "0 < u" by (simp add: u_def)
  have "rne x - x = (of_int (round_even (x / u)) - x / u) * u"
    using pos u by (simp add: rne_def u_def algebra_simps)
  then have "\<bar>rne x - x\<bar> = \<bar>of_int (round_even (x / u)) - x / u\<bar> * u"
    using u by (simp add: abs_mult)
  also have "\<dots> \<le> 1 / 2 * u"
    using round_even_err [of "x / u"] u by (simp add: mult_right_mono)
  also have "\<dots> = pow2 (expo x) / 2 ^ 53"
    by (simp add: u_def pow2_diff pow2_numeral)
  also have "\<dots> \<le> x / 2 ^ 53"
    using assms expo_normal by (simp add: divide_right_mono)
  finally show ?thesis .
qed

lemma rne_eval:
  assumes "pow2 k \<le> x" and "x < pow2 (k + 1)" and "- 1022 \<le> k"
  shows "rne x = of_int (round_even (x / pow2 (k - 52))) * pow2 (k - 52)"
proof -
  have "expo x = k" using assms by (rule expo_eqI)
  moreover have "x \<noteq> 0" using assms(1) pow2_pos [of k] by linarith
  ultimately show ?thesis by (simp add: rne_def)
qed

lemma rne_pow2:
  assumes "- 1022 \<le> k"
  shows "rne (pow2 k) = pow2 k"
proof -
  have "pow2 k < pow2 (k + 1)" by (rule pow2_less) simp
  then have "rne (pow2 k) = of_int (round_even (pow2 k / pow2 (k - 52))) * pow2 (k - 52)"
    using assms by (intro rne_eval) simp_all
  also have "pow2 k / pow2 (k - 52) = of_int (2 ^ 52)"
    by (simp add: pow2_diff pow2_numeral)
  also have "of_int (round_even (of_int (2 ^ 52))) * pow2 (k - 52) = pow2 k"
    by (simp only: round_even_of_int) (simp add: pow2_diff pow2_numeral)
  finally show ?thesis .
qed

lemma rne_1 [simp]: "rne 1 = 1"
  using rne_pow2 [of 0] by simp

lemma rne_bounds:
  assumes "pow2 (- 1022) \<le> x"
  shows "x * (1 - 1 / 2 ^ 53) \<le> rne x" and "rne x \<le> x * (1 + 1 / 2 ^ 53)"
proof -
  have "\<bar>rne x - x\<bar> \<le> x * (1 / 2 ^ 53)"
    using rne_err [OF assms] by simp
  then show "x * (1 - 1 / 2 ^ 53) \<le> rne x" and "rne x \<le> x * (1 + 1 / 2 ^ 53)"
    by (simp_all only: abs_le_iff algebra_simps) linarith+
qed

lemma eps_facts:
  "(0::real) < 1 - 1 / 2 ^ 53" "(1::real) - 1 / 2 ^ 53 < 1" "(1::real) < 1 + 1 / 2 ^ 53"
  "(1 - 1 / 2 ^ 53) * (1 + 1 / 2 ^ 53) \<le> (1::real)"
  "(1::real) \<le> (1 - 1 / 2 ^ 53) * (1 + 1 / 2 ^ 53) ^ 2"
  by (simp_all add: power2_eq_square)

lemma close_0 [simp]: "close_to 0 v v"
  by (simp add: close_to_def)

lemma close_pos:
  assumes "close_to k v x" and "0 < v"
  shows "0 < x"
proof -
  have "0 < v * (1 - 1 / 2 ^ 53) ^ k"
    using assms(2) eps_facts(1) by (intro mult_pos_pos zero_less_power)
  then show ?thesis using assms(1) by (simp add: close_to_def)
qed

lemma close_weaken:
  assumes "close_to j v x" and "j \<le> k" and "0 \<le> v"
  shows "close_to k v x"
proof -
  have lo: "(1 - 1 / 2 ^ 53 :: real) ^ k \<le> (1 - 1 / 2 ^ 53) ^ j"
    using assms(2) eps_facts(1,2) by (intro power_decreasing) simp_all
  have hi: "(1 + 1 / 2 ^ 53 :: real) ^ j \<le> (1 + 1 / 2 ^ 53) ^ k"
    using assms(2) by (intro power_increasing) simp_all
  have "v * (1 - 1 / 2 ^ 53) ^ k \<le> v * (1 - 1 / 2 ^ 53) ^ j"
    using lo assms(3) by (rule mult_left_mono)
  moreover have "v * (1 + 1 / 2 ^ 53) ^ j \<le> v * (1 + 1 / 2 ^ 53) ^ k"
    using hi assms(3) by (rule mult_left_mono)
  ultimately show ?thesis using assms(1) by (simp add: close_to_def)
qed

lemma close_rne:
  assumes "close_to k v x" and "pow2 (- 1022) \<le> x" and "0 \<le> v"
  shows "close_to (Suc k) v (rne x)"
proof -
  have pos: "0 < x" using assms(2) pow2_pos [of "- 1022"] by linarith
  have "v * (1 - 1 / 2 ^ 53) ^ Suc k = (v * (1 - 1 / 2 ^ 53) ^ k) * (1 - 1 / 2 ^ 53)"
    by simp
  also have "\<dots> \<le> x * (1 - 1 / 2 ^ 53)"
    using assms(1) eps_facts(1) by (intro mult_right_mono) (simp_all add: close_to_def)
  also have "\<dots> \<le> rne x" using assms(2) by (rule rne_bounds)
  finally have lo: "v * (1 - 1 / 2 ^ 53) ^ Suc k \<le> rne x" .
  have "rne x \<le> x * (1 + 1 / 2 ^ 53)" using assms(2) by (rule rne_bounds)
  also have "\<dots> \<le> (v * (1 + 1 / 2 ^ 53) ^ k) * (1 + 1 / 2 ^ 53)"
    using assms(1) by (intro mult_right_mono) (simp_all add: close_to_def)
  also have "\<dots> = v * (1 + 1 / 2 ^ 53) ^ Suc k" by simp
  finally show ?thesis using lo by (simp add: close_to_def)
qed

lemma close_mult:
  assumes "close_to j v x" and "close_to k w y" and "0 < v" and "0 < w"
  shows "close_to (j + k) (v * w) (x * y)"
proof -
  have x: "0 < x" and y: "0 < y"
    using assms close_pos by blast+
  have lv: "0 \<le> v * (1 - 1 / 2 ^ 53) ^ j" and lw: "0 \<le> w * (1 - 1 / 2 ^ 53) ^ k"
    using assms(3,4) eps_facts(1) by simp_all
  have "(v * (1 - 1 / 2 ^ 53) ^ j) * (w * (1 - 1 / 2 ^ 53) ^ k) \<le> x * y"
    using assms(1,2) lv lw x y by (intro mult_mono) (simp_all add: close_to_def)
  moreover have "x * y \<le> (v * (1 + 1 / 2 ^ 53) ^ j) * (w * (1 + 1 / 2 ^ 53) ^ k)"
    using assms(1,2) x y by (intro mult_mono) (simp_all add: close_to_def)
  ultimately show ?thesis
    by (simp add: close_to_def power_add mult_ac)
qed

lemma close_add:
  assumes "close_to k v x" and "close_to k w y"
  shows "close_to k (v + w) (x + y)"
  using assms by (simp add: close_to_def algebra_simps add_mono)

lemma close_inverse:
  assumes "close_to k v x" and "0 < v"
  shows "close_to (2 * k) (1 / v) (1 / x)"
proof -
  have x: "0 < x" using assms by (rule close_pos)
  have a: "(1 - 1 / 2 ^ 53 :: real) ^ k * (1 + 1 / 2 ^ 53) ^ k \<le> 1"
    using eps_facts(1,4) by (simp add: power_mult_distrib [symmetric] power_le_one)
  have b: "(1::real) \<le> (1 - 1 / 2 ^ 53) ^ k * (1 + 1 / 2 ^ 53) ^ (2 * k)"
    using eps_facts(5)
    by (simp add: power_mult power_mult_distrib [symmetric] one_le_power)
  have pl: "(0::real) < (1 - 1 / 2 ^ 53) ^ k" and ph: "(0::real) < (1 + 1 / 2 ^ 53) ^ k"
    using eps_facts(1) by simp_all
  have lo1: "(1 - 1 / 2 ^ 53 :: real) ^ (2 * k) \<le> (1 - 1 / 2 ^ 53) ^ k"
    using eps_facts(1,2) by (intro power_decreasing) simp_all
  have "x \<le> v * (1 + 1 / 2 ^ 53) ^ k" using assms(1) by (simp add: close_to_def)
  then have "1 / (v * (1 + 1 / 2 ^ 53) ^ k) \<le> 1 / x"
    using x by (simp add: frac_le)
  moreover have "(1 / v) * (1 - 1 / 2 ^ 53) ^ k \<le> 1 / (v * (1 + 1 / 2 ^ 53) ^ k)"
    using a assms(2) ph by (simp add: field_simps)
  moreover have "(1 / v) * (1 - 1 / 2 ^ 53) ^ (2 * k) \<le> (1 / v) * (1 - 1 / 2 ^ 53) ^ k"
    using lo1 assms(2) by (intro mult_left_mono) simp_all
  ultimately have lo: "(1 / v) * (1 - 1 / 2 ^ 53) ^ (2 * k) \<le> 1 / x" by linarith
  have "v * (1 - 1 / 2 ^ 53) ^ k \<le> x" using assms(1) by (simp add: close_to_def)
  then have "1 / x \<le> 1 / (v * (1 - 1 / 2 ^ 53) ^ k)"
    using assms(2) pl by (intro frac_le) simp_all
  moreover have "1 / (v * (1 - 1 / 2 ^ 53) ^ k) \<le> (1 / v) * (1 + 1 / 2 ^ 53) ^ (2 * k)"
    using b assms(2) pl by (simp add: field_simps)
  ultimately show ?thesis using lo by (simp add: close_to_def)
qed

lemma rne_power2: "rne (2 ^ n) = 2 ^ n"
  using rne_pow2 [of "int n"] by (simp add: pow2_nat)

lemma rne_inverse_power2: "n \<le> 1022 \<Longrightarrow> rne (1 / 2 ^ n) = 1 / 2 ^ n"
  using rne_pow2 [of "- int n"] by (simp add: pow2_neg_nat)

lemma tiny_le: "n \<le> 1022 \<Longrightarrow> pow2 (- 1022) \<le> 1 / 2 ^ n"
  using pow2_mono [of "- 1022" "- int n"] by (simp add: pow2_neg_nat)

lemma rne_small_powers:
  "rne (1 / 8) = 1 / 8" "rne (1 / 16) = 1 / 16" "rne (1 / 512) = 1 / 512" "rne (1 / 1024) = 1 / 1024"
  using rne_inverse_power2 [of 3] rne_inverse_power2 [of 4] rne_inverse_power2 [of 9]
    rne_inverse_power2 [of 10]
  by simp_all

lemma close_rne_exact:
  assumes "pow2 (- 1022) \<le> x"
  shows "close_to 1 x (rne x)"
proof -
  have "0 \<le> x" using assms pow2_pos [of "- 1022"] by linarith
  then show ?thesis using close_rne [of 0 x x] assms by simp
qed

lemma pow2_double: "pow2 k + pow2 k = pow2 (k + 1)"
  using pow2_add [of k 1] pow2_nat [of 1] by simp

lemma pow2_inverse: "1 / pow2 k = pow2 (- k)"
  using pow2_diff [of 0 k] by simp

lemma tiny_pow2: "- 1022 \<le> k \<Longrightarrow> pow2 (- 1022) \<le> pow2 k"
  by (rule pow2_mono)

lemma one_le_pow2: "0 \<le> k \<Longrightarrow> 1 \<le> pow2 k"
  using pow2_mono [of 0 k] by simp

lemma rne_is:
  assumes "pow2 k \<le> x" and "x < pow2 (k + 1)" and "- 1022 \<le> k"
    and "round_even (x / pow2 (k - 52)) = n"
  shows "rne x = of_int n * pow2 (k - 52)"
  using rne_eval [OF assms(1-3)] assms(4) by simp

lemma pow2_1: "pow2 1 = 2" "pow2 (- 1) = 1 / 2"
  using pow2_nat [of 1] pow2_neg_nat [of 1] by simp_all

lemma rne_nat_exact:
  assumes "n < 2 ^ 53"
  shows "rne (real n) = real n"
proof (cases "n = 0")
  case True
  then show ?thesis by simp
next
  case False
  define x where "x = real n"
  have x1: "1 \<le> x" using False by (simp add: x_def)
  have t: "pow2 (- 1022) \<le> x"
  proof -
    have "pow2 (- 1022) \<le> pow2 0" by (rule pow2_mono) simp
    then show ?thesis using x1 by simp
  qed
  have lo: "pow2 (expo x) \<le> x" using expo_normal [OF t] by simp
  have "real n < real (2 ^ 53)" using assms by (simp only: of_nat_less_iff)
  then have hi: "x < pow2 53" by (simp add: x_def pow2_numeral)
  have e: "expo x < 53"
  proof (rule ccontr)
    assume "\<not> expo x < 53"
    then have "pow2 53 \<le> pow2 (expo x)" by (intro pow2_mono) simp
    then show False using lo hi by linarith
  qed
  define d where "d = nat (52 - expo x)"
  have d: "expo x - 52 = - int d" using e by (simp add: d_def)
  have p: "pow2 (expo x - 52) = 1 / 2 ^ d" unfolding d by (rule pow2_neg_nat)
  have "x / pow2 (expo x - 52) = x * 2 ^ d" by (simp add: p)
  also have "\<dots> = of_int (int n * 2 ^ d)" by (simp add: x_def)
  finally have s: "x / pow2 (expo x - 52) = of_int (int n * 2 ^ d)" .
  have x0: "x \<noteq> 0" using x1 by simp
  have "rne x = of_int (round_even (x / pow2 (expo x - 52))) * pow2 (expo x - 52)"
    using x0 by (simp add: rne_def)
  also have "\<dots> = of_int (int n * 2 ^ d) * (1 / 2 ^ d)"
    by (simp only: s) (simp only: round_even_of_int p)
  also have "\<dots> = x" by (simp add: x_def)
  finally show ?thesis by (simp add: x_def)
qed

lemma np_float64_exact: "n < 2 ^ 53 \<Longrightarrow> np_float64 n = real n"
  by (simp add: np_float64_def rne_nat_exact)

lemma eps_power_upper:
  "real m \<le> 2 ^ 52 \<Longrightarrow> (1 + 1 / 2 ^ 53 :: real) ^ m \<le> 1 + real m / 2 ^ 52"
proof (induction m)
  case 0
  then show ?case by simp
next
  case (Suc m)
  have m: "real m \<le> 2 ^ 52" using Suc.prems by simp
  have "(1 + 1 / 2 ^ 53 :: real) ^ Suc m = (1 + 1 / 2 ^ 53) * (1 + 1 / 2 ^ 53) ^ m" by simp
  also have "\<dots> \<le> (1 + 1 / 2 ^ 53) * (1 + real m / 2 ^ 52)"
    using Suc.IH [OF m] by (intro mult_left_mono) simp_all
  also have "\<dots> \<le> 1 + real (Suc m) / 2 ^ 52"
    using m by (simp add: field_simps)
  finally show ?case .
qed

lemma eps_power_lower: "1 - real m / 2 ^ 52 \<le> (1 - 1 / 2 ^ 53 :: real) ^ m"
proof -
  have "1 + real m * (- (1 / 2 ^ 53)) \<le> (1 + (- (1 / 2 ^ 53)) :: real) ^ m"
    by (rule Bernoulli_inequality) simp
  moreover have "1 - real m / 2 ^ 52 \<le> 1 + real m * (- (1 / 2 ^ 53))"
    by (simp add: field_simps)
  ultimately show ?thesis by simp
qed

lemma close_bound:
  assumes "close_to m v x" and "0 \<le> v" and "real m \<le> 2 ^ 52"
  shows "\<bar>x - v\<bar> \<le> v * real m / 2 ^ 52"
proof -
  have "x \<le> v * (1 + 1 / 2 ^ 53) ^ m" using assms(1) by (simp only: close_to_def)
  also have "\<dots> \<le> v * (1 + real m / 2 ^ 52)"
    by (rule mult_left_mono [OF eps_power_upper [OF assms(3)] assms(2)])
  finally have up: "x \<le> v * (1 + real m / 2 ^ 52)" .
  have "v * (1 - real m / 2 ^ 52) \<le> v * (1 - 1 / 2 ^ 53) ^ m"
    by (rule mult_left_mono [OF eps_power_lower assms(2)])
  also have "\<dots> \<le> x" using assms(1) by (simp only: close_to_def)
  finally have down: "v * (1 - real m / 2 ^ 52) \<le> x" .
  have "x - v \<le> v * real m / 2 ^ 52" using up by (simp add: algebra_simps)
  moreover have "- (v * real m / 2 ^ 52) \<le> x - v" using down by (simp add: algebra_simps)
  ultimately show ?thesis by linarith
qed

subsection \<open>Learning rate\<close>

lemma decay_bounds: "1 / 16 \<le> rne (1 / 10)" "rne (1 / 10) \<le> 1 / 8"
proof -
  have "rne (1 / 16) \<le> rne (1 / 10)" by (rule rne_mono) simp_all
  then show "1 / 16 \<le> rne (1 / 10)" by (simp only: rne_small_powers)
  have "rne (1 / 10) \<le> rne (1 / 8)" by (rule rne_mono) simp_all
  then show "rne (1 / 10) \<le> 1 / 8" by (simp only: rne_small_powers)
qed

lemma initial_lr_bounds: "1 / 1024 \<le> rne (1 / 1000)" "rne (1 / 1000) \<le> 1 / 512"
proof -
  have "rne (1 / 1024) \<le> rne (1 / 1000)" by (rule rne_mono) simp_all
  then show "1 / 1024 \<le> rne (1 / 1000)" by (simp only: rne_small_powers)
  have "rne (1 / 1000) \<le> rne (1 / 512)" by (rule rne_mono) simp_all
  then show "rne (1 / 1000) \<le> 1 / 512" by (simp only: rne_small_powers)
qed

lemma initial_lr_value: "rne (1 / 1000) = 4611686018427388 / 2 ^ 62"
proof -
  have "rne (1 / 1000) = of_int (round_even ((1 / 1000) / pow2 (- 10 - 52))) * pow2 (- 10 - 52)"
    by (rule rne_eval) (simp_all add: pow2_neg_numeral)
  also have "(1 / 1000) / pow2 (- 10 - 52) = (4611686018427387904 / 1000 :: real)"
    by (simp add: pow2_neg_numeral)
  also have "round_even (4611686018427387904 / 1000) = 4611686018427388"
    by (simp add: round_even_def Let_def)
  finally show ?thesis by (simp add: pow2_neg_numeral)
qed

lemma initial_lr_representable: "rne (rne (1 / 1000)) = rne (1 / 1000)"
proof -
  have "rne (4611686018427388 / 2 ^ 62)
      = of_int (round_even ((4611686018427388 / 2 ^ 62) / pow2 (- 10 - 52))) * pow2 (- 10 - 52)"
    by (rule rne_eval) (simp_all add: pow2_neg_numeral)
  also have "(4611686018427388 / 2 ^ 62) / pow2 (- 10 - 52) = of_int 4611686018427388"
    by (simp add: pow2_neg_numeral)
  also have "of_int (round_even (of_int 4611686018427388)) * pow2 (- 10 - 52)
      = (4611686018427388 / 2 ^ 62 :: real)"
    by (simp only: round_even_of_int) (simp add: pow2_neg_numeral)
  finally show ?thesis by (simp only: initial_lr_value)
qed

lemma lr_schedule_0: "lr_schedule 0 = Inr (rne 0.001)"
  by (simp add: lr_schedule_def float_of_int_def fmul_def fadd_def fdiv_def
      initial_lr_representable)

lemma float_of_int_ok:
  assumes "n < 2 ^ 1000"
  shows "float_of_int n = Inr (rne (real n))" and "rne (real n) \<le> pow2 1000"
proof -
  have "real n < real (2 ^ 1000)" using assms by (simp only: of_nat_less_iff)
  also have "real (2 ^ 1000) = pow2 1000"
    by (simp only: pow2_numeral of_nat_power of_nat_numeral)
  finally have "real n \<le> pow2 1000" by simp
  then have "rne (real n) \<le> rne (pow2 1000)" by (intro rne_mono) simp_all
  then show le: "rne (real n) \<le> pow2 1000" by (simp add: rne_pow2)
  have "pow2 1000 < pow2 1024" by (rule pow2_less) simp
  also have "pow2 1024 = 2 ^ 1024" using pow2_nat [of 1024] by (simp only: of_nat_numeral)
  finally have "\<not> 2 ^ 1024 \<le> rne (real n)" using le by linarith
  then show "float_of_int n = Inr (rne (real n))"
    by (simp only: float_of_int_def if_False)
qed

lemma lr_schedule_close:
  assumes "0 < e" and "e < 2 ^ 1000"
  shows "\<exists>a. lr_schedule e = Inr a \<and> close_to 11 ((1 / 1000) / (1 + (1 / 10) * real e)) a"
proof -
  define ed where "ed = rne (real e)"
  define m where "m = rne (1 / 10) * ed"
  define p where "p = rne m"
  define s where "s = rne (1 + p)"
  define q where "q = rne (1 / s)"
  define w where "w = rne (1 / 1000) * q"
  have conv: "float_of_int e = Inr ed" and ed_hi: "ed \<le> pow2 1000"
    using float_of_int_ok [OF assms(2)] by (simp_all add: ed_def)
  have e1: "1 \<le> real e" using assms(1) by simp
  have tiny1: "pow2 (- 1022) \<le> 1"
    using pow2_mono [of "- 1022" 0] by simp
  have ed_lo: "1 \<le> ed"
    using rne_mono [of 1 "real e"] e1 by (simp add: ed_def)
  have ed_close: "close_to 1 (real e) ed"
    unfolding ed_def using e1 tiny1 by (intro close_rne_exact) simp
  have d_close: "close_to 1 (1 / 10) (rne (1 / 10))"
    using tiny_le [of 4] by (intro close_rne_exact) simp
  have m_close: "close_to 2 ((1 / 10) * real e) m"
    unfolding m_def using close_mult [OF d_close ed_close] assms(1)
    by (simp add: numeral_2_eq_2)
  have m_lo: "1 / 16 \<le> m"
  proof -
    have "1 / 16 * 1 \<le> rne (1 / 10) * ed"
      using decay_bounds(1) ed_lo by (intro mult_mono) simp_all
    then show ?thesis by (simp add: m_def)
  qed
  have m_hi: "m \<le> pow2 1000"
  proof -
    have "rne (1 / 10) * ed \<le> 1 * pow2 1000"
      using decay_bounds(2) ed_hi ed_lo by (intro mult_mono) simp_all
    then show ?thesis by (simp add: m_def)
  qed
  have m_norm: "pow2 (- 1022) \<le> m"
    using tiny_le [of 4] m_lo by simp
  have p_close: "close_to 3 ((1 / 10) * real e) p"
    unfolding p_def using close_rne [OF m_close m_norm] by (simp add: numeral_3_eq_3)
  have p_lo: "0 \<le> p"
    unfolding p_def using m_lo by (intro rne_nonneg) simp
  have p_hi: "p \<le> pow2 1000"
  proof -
    have "rne m \<le> rne (pow2 1000)" using m_lo m_hi by (intro rne_mono) simp_all
    then show ?thesis by (simp add: rne_pow2 p_def)
  qed
  have one_close: "close_to 3 1 1"
    using close_weaken [of 0 1 1 3] by simp
  have t_close: "close_to 3 (1 + (1 / 10) * real e) (1 + p)"
    using close_add [OF one_close p_close] .
  have t_norm: "pow2 (- 1022) \<le> 1 + p" using tiny1 p_lo by linarith
  have s_close: "close_to 4 (1 + (1 / 10) * real e) s"
    unfolding s_def using close_rne [OF t_close t_norm] by simp
  have s_lo: "1 \<le> s"
    using rne_mono [of 1 "1 + p"] p_lo by (simp add: s_def)
  have s_hi: "s \<le> pow2 1001"
  proof -
    have "1 + p \<le> pow2 1000 + pow2 1000" using p_hi one_le_pow2 [of 1000] by simp
    then have "1 + p \<le> pow2 1001" using pow2_double [of 1000] by simp
    then have "rne (1 + p) \<le> rne (pow2 1001)" using p_lo by (intro rne_mono) simp_all
    then show ?thesis by (simp add: rne_pow2 s_def)
  qed
  have r_close: "close_to 8 (1 / (1 + (1 / 10) * real e)) (1 / s)"
    using close_inverse [OF s_close] by simp
  have r_lo: "pow2 (- 1001) \<le> 1 / s"
  proof -
    have "1 / pow2 1001 \<le> 1 / s"
      using s_lo s_hi by (intro divide_left_mono) simp_all
    then show ?thesis by (simp add: pow2_inverse)
  qed
  have r_norm: "pow2 (- 1022) \<le> 1 / s"
    using tiny_pow2 [of "- 1001"] r_lo by simp
  have q_close: "close_to 9 (1 / (1 + (1 / 10) * real e)) q"
    unfolding q_def using close_rne [OF r_close r_norm] by simp
  have q_lo: "pow2 (- 1001) \<le> q"
  proof -
    have "rne (pow2 (- 1001)) \<le> rne (1 / s)" using r_lo by (intro rne_mono) simp_all
    then show ?thesis by (simp add: rne_pow2 q_def)
  qed
  have i_close: "close_to 1 (1 / 1000) (rne (1 / 1000))"
    using tiny_le [of 10] by (intro close_rne_exact) simp
  have w_close: "close_to 10 ((1 / 1000) * (1 / (1 + (1 / 10) * real e))) w"
    unfolding w_def using close_mult [OF i_close q_close] by simp
  have w_lo: "pow2 (- 1011) \<le> w"
  proof -
    have "pow2 (- 10) * pow2 (- 1001) \<le> rne (1 / 1000) * q"
      using initial_lr_bounds(1) q_lo by (intro mult_mono) (simp_all add: pow2_neg_numeral)
    then show ?thesis by (simp add: w_def pow2_add [symmetric])
  qed
  have w_norm: "pow2 (- 1022) \<le> w"
    using tiny_pow2 [of "- 1011"] w_lo by simp
  have a_close: "close_to 11 ((1 / 1000) * (1 / (1 + (1 / 10) * real e))) (rne w)"
    using close_rne [OF w_close w_norm] by simp
  have "lr_schedule e = Inr (rne w)"
    by (simp add: lr_schedule_def conv fmul_def fadd_def fdiv_def w_def q_def s_def p_def m_def)
  then show ?thesis using a_close by simp
qed

lemma close_11_bound:
  assumes "close_to 11 v x" and "0 < v"
  shows "\<bar>x - v\<bar> \<le> v / 2 ^ 49"
proof -
  have hi: "(1 + 1 / 2 ^ 53 :: real) ^ 11 \<le> 1 + 1 / 2 ^ 49" by (simp add: power_divide)
  have lo: "(1 - 1 / 2 ^ 49 :: real) \<le> (1 - 1 / 2 ^ 53) ^ 11" by (simp add: power_divide)
  have "x \<le> v * (1 + 1 / 2 ^ 53) ^ 11" using assms(1) by (simp only: close_to_def)
  also have "\<dots> \<le> v * (1 + 1 / 2 ^ 49)"
    by (rule mult_left_mono [OF hi]) (use assms(2) in simp)
  finally have up: "x \<le> v * (1 + 1 / 2 ^ 49)" .
  have "v * (1 - 1 / 2 ^ 49) \<le> v * (1 - 1 / 2 ^ 53) ^ 11"
    by (rule mult_left_mono [OF lo]) (use assms(2) in simp)
  also have "\<dots> \<le> x" using assms(1) by (simp only: close_to_def)
  finally have down: "v * (1 - 1 / 2 ^ 49) \<le> x" .
  have "x - v \<le> v / 2 ^ 49" using up by (simp add: field_simps)
  moreover have "- (v / 2 ^ 49) \<le> x - v" using down by (simp add: field_simps)
  ultimately show ?thesis by linarith
qed

lemma lr_schedule_mono:
  assumes "e \<le> e'" and "lr_schedule e = Inr a" and "lr_schedule e' = Inr b"
  shows "b \<le> a"
proof -
  define s where "s = rne (1 + rne (rne (1 / 10) * rne (real e)))"
  define s' where "s' = rne (1 + rne (rne (1 / 10) * rne (real e')))"
  have a: "a = rne (rne (1 / 1000) * rne (1 / s))"
    using assms(2)
    by (auto simp: lr_schedule_def float_of_int_def fmul_def fadd_def fdiv_def s_def
        split: if_splits)
  have b: "b = rne (rne (1 / 1000) * rne (1 / s'))"
    using assms(3)
    by (auto simp: lr_schedule_def float_of_int_def fmul_def fadd_def fdiv_def s'_def
        split: if_splits)
  have d: "0 \<le> rne (1 / 10)" and i: "0 \<le> rne (1 / 1000)"
    by (intro rne_nonneg, simp)+
  have ed: "0 \<le> rne (real e)" by (intro rne_nonneg) simp
  have "rne (real e) \<le> rne (real e')" using assms(1) by (intro rne_mono) simp_all
  then have m: "rne (1 / 10) * rne (real e) \<le> rne (1 / 10) * rne (real e')"
    using d by (rule mult_left_mono)
  have m0: "0 \<le> rne (1 / 10) * rne (real e)" using d ed by simp
  have p: "rne (rne (1 / 10) * rne (real e)) \<le> rne (rne (1 / 10) * rne (real e'))"
    using m0 m by (rule rne_mono)
  have p0: "0 \<le> rne (rne (1 / 10) * rne (real e))" using m0 by (rule rne_nonneg)
  have "rne 1 \<le> s" unfolding s_def using p0 by (intro rne_mono) simp_all
  then have s1: "1 \<le> s" by simp
  have ss: "s \<le> s'" unfolding s_def s'_def using p p0 by (intro rne_mono) simp_all
  have r: "1 / s' \<le> 1 / s" using s1 ss by (intro divide_left_mono) simp_all
  have r0: "0 \<le> 1 / s'" using s1 ss by simp
  have q: "rne (1 / s') \<le> rne (1 / s)" using r0 r by (rule rne_mono)
  have q0: "0 \<le> rne (1 / s')" using r0 by (rule rne_nonneg)
  have w: "rne (1 / 1000) * rne (1 / s') \<le> rne (1 / 1000) * rne (1 / s)"
    using q i by (rule mult_left_mono)
  have "0 \<le> rne (1 / 1000) * rne (1 / s')" using i q0 by simp
  then show ?thesis unfolding a b using w by (rule rne_mono)
qed

lemma round_tie_down: "round_even (10000000000000001 / 2) = 5000000000000000"
  by (simp add: round_even_def Let_def)

lemma float_of_int_tie:
  "float_of_int (10 ^ 16 + 1) = Inr (10 ^ 16)" "float_of_int (10 ^ 16) = Inr (10 ^ 16)"
proof -
  have a: "rne 10000000000000001 = 10000000000000000"
  proof -
    have "rne 10000000000000001
        = of_int (round_even (10000000000000001 / pow2 (53 - 52))) * pow2 (53 - 52)"
      by (rule rne_eval) (simp_all add: pow2_numeral)
    also have "pow2 (53 - 52) = 2" using pow2_nat [of 1] by simp
    finally show ?thesis by (simp add: round_tie_down)
  qed
  have b: "rne 10000000000000000 = 10000000000000000"
  proof -
    have "rne 10000000000000000
        = of_int (round_even (10000000000000000 / pow2 (53 - 52))) * pow2 (53 - 52)"
      by (rule rne_eval) (simp_all add: pow2_numeral)
    also have "pow2 (53 - 52) = 2" using pow2_nat [of 1] by simp
    also have "(10000000000000000 / 2 :: real) = of_int 5000000000000000" by simp
    finally show ?thesis by (simp only: round_even_of_int)
  qed
  show "float_of_int (10 ^ 16 + 1) = Inr (10 ^ 16)"
    using a by (simp add: float_of_int_def)
  show "float_of_int (10 ^ 16) = Inr (10 ^ 16)"
    using b by (simp add: float_of_int_def)
qed

lemma lr_schedule_tie: "lr_schedule (10 ^ 16 + 1) = lr_schedule (10 ^ 16)"
  unfolding lr_schedule_def float_of_int_tie(1) float_of_int_tie(2) ..

lemma decay_value: "rne (1 / 10) = 7205759403792794 / 2 ^ 56"
proof -
  have "rne (1 / 10) = of_int 7205759403792794 * pow2 (- 4 - 52)"
  proof (rule rne_is)
    show "round_even (1 / 10 / pow2 (- 4 - 52)) = 7205759403792794"
      by (simp add: pow2_neg_numeral round_even_def Let_def)
  qed (simp_all add: pow2_neg_numeral pow2_numeral pow2_1)
  then show ?thesis by (simp add: pow2_neg_numeral)
qed

lemma float_of_int_four: "float_of_int 4 = Inr 4"
  using rne_power2 [of 2] by (simp add: float_of_int_def)

lemma epoch4_product: "fmul (7205759403792794 / 2 ^ 56) 4 = 7205759403792794 / 2 ^ 54"
proof -
  have "rne (7205759403792794 / 2 ^ 54) = of_int 7205759403792794 * pow2 (- 2 - 52)"
  proof (rule rne_is)
    show "round_even (7205759403792794 / 2 ^ 54 / pow2 (- 2 - 52)) = 7205759403792794"
      by (simp add: pow2_neg_numeral round_even_def Let_def)
  qed (simp_all add: pow2_neg_numeral pow2_numeral pow2_1)
  then show ?thesis by (simp add: pow2_neg_numeral fmul_def)
qed

lemma epoch4_sum: "fadd 1 (7205759403792794 / 2 ^ 54) = 6305039478318694 / 2 ^ 52"
proof -
  have "rne (1 + 7205759403792794 / 2 ^ 54) = of_int 6305039478318694 * pow2 (0 - 52)"
  proof (rule rne_is)
    show "round_even ((1 + 7205759403792794 / 2 ^ 54) / pow2 (0 - 52)) = 6305039478318694"
      by (simp add: pow2_neg_numeral round_even_def Let_def)
  qed (simp_all add: pow2_neg_numeral pow2_numeral pow2_1)
  then show ?thesis by (simp add: pow2_neg_numeral fadd_def)
qed

lemma epoch4_quotient: "fdiv 1 (6305039478318694 / 2 ^ 52) = 6433713753386423 / 2 ^ 53"
proof -
  have "rne (1 / (6305039478318694 / 2 ^ 52)) = of_int 6433713753386423 * pow2 (- 1 - 52)"
  proof (rule rne_is)
    show "round_even (1 / (6305039478318694 / 2 ^ 52) / pow2 (- 1 - 52)) = 6433713753386423"
      by (simp add: pow2_neg_numeral round_even_def Let_def)
  qed (simp_all add: pow2_neg_numeral pow2_numeral pow2_1)
  then show ?thesis by (simp add: pow2_neg_numeral fdiv_def)
qed

lemma epoch4_rate:
  "fmul (4611686018427388 / 2 ^ 62) (6433713753386423 / 2 ^ 53) = 6588122883467697 / 2 ^ 63"
proof -
  have "rne (4611686018427388 / 2 ^ 62 * (6433713753386423 / 2 ^ 53))
      = of_int 6588122883467697 * pow2 (- 11 - 52)"
  proof (rule rne_is)
    show "round_even (4611686018427388 / 2 ^ 62 * (6433713753386423 / 2 ^ 53) / pow2 (- 11 - 52))
        = 6588122883467697"
      by (simp add: pow2_neg_numeral round_even_def Let_def)
  qed (simp_all add: pow2_neg_numeral pow2_numeral pow2_1)
  then show ?thesis by (simp add: pow2_neg_numeral fmul_def)
qed

lemma epoch4_closed_form:
  "fdiv (4611686018427388 / 2 ^ 62) (6305039478318694 / 2 ^ 52) = 6588122883467698 / 2 ^ 63"
proof -
  have "rne (4611686018427388 / 2 ^ 62 / (6305039478318694 / 2 ^ 52))
      = of_int 6588122883467698 * pow2 (- 11 - 52)"
  proof (rule rne_is)
    show "round_even (4611686018427388 / 2 ^ 62 / (6305039478318694 / 2 ^ 52) / pow2 (- 11 - 52))
        = 6588122883467698"
      by (simp add: pow2_neg_numeral round_even_def Let_def)
  qed (simp_all add: pow2_neg_numeral pow2_numeral pow2_1)
  then show ?thesis by (simp add: pow2_neg_numeral fdiv_def)
qed

lemma literal_values:
  "rne 0.001 = 4611686018427388 / 2 ^ 62" "rne 0.1 = 7205759403792794 / 2 ^ 56" "(1.0 :: real) = 1"
  using initial_lr_value decay_value by simp_all

lemma lr_schedule_4: "lr_schedule 4 = Inr (6588122883467697 / 2 ^ 63)"
  by (simp only: lr_schedule_def Let_def float_of_int_four sum.case literal_values
      epoch4_product epoch4_sum epoch4_quotient epoch4_rate)

lemma closed_form_4:
  "fdiv (rne 0.001) (fadd 1.0 (fmul (rne 0.1) 4)) = 6588122883467698 / 2 ^ 63"
  by (simp only: literal_values epoch4_product epoch4_sum epoch4_closed_form)

lemma lr_schedule_4_differs:
  "lr_schedule 4 \<noteq> Inr (fdiv (rne 0.001) (fadd 1.0 (fmul (rne 0.1) 4)))"
  by (simp only: lr_schedule_4 closed_form_4) simp

lemma lr_schedule_bound:
  assumes "e < 2 ^ 1000"
  shows "\<exists>a. lr_schedule e = Inr a
     \<and> \<bar>a - (1 / 1000) / (1 + (1 / 10) * real e)\<bar> \<le> ((1 / 1000) / (1 + (1 / 10) * real e)) / 2 ^ 49"
proof (cases "e = 0")
  case True
  have t: "pow2 (- 1022) \<le> (1 / 1000 :: real)"
  proof -
    have "pow2 (- 1022) \<le> 1 / 2 ^ 10" by (rule tiny_le) simp
    also have "\<dots> \<le> (1 / 1000 :: real)" by simp
    finally show ?thesis .
  qed
  have "\<bar>rne (1 / 1000) - 1 / 1000\<bar> \<le> (1 / 1000) / 2 ^ 53" using rne_err [OF t] .
  also have "\<dots> \<le> (1 / 1000) / 2 ^ 49" by simp
  finally have "\<bar>rne (1 / 1000) - 1 / 1000\<bar> \<le> (1 / 1000) / 2 ^ 49" .
  moreover have "lr_schedule 0 = Inr (rne (1 / 1000))" using lr_schedule_0 by simp
  ultimately show ?thesis using True by simp
next
  case False
  then have pos: "0 < e" by simp
  obtain a where a: "lr_schedule e = Inr a"
    and c: "close_to 11 ((1 / 1000) / (1 + (1 / 10) * real e)) a"
    using lr_schedule_close [OF pos assms] by blast
  have "0 < (1 / 1000) / (1 + (1 / 10) * real e)"
    by (intro divide_pos_pos add_pos_nonneg) simp_all
  then have "\<bar>a - (1 / 1000) / (1 + (1 / 10) * real e)\<bar>
      \<le> ((1 / 1000) / (1 + (1 / 10) * real e)) / 2 ^ 49"
    using close_11_bound [OF c] by simp
  then show ?thesis using a by blast
qed

lemma closed_form_gap:
  assumes "0 \<le> x" and "x < 2 ^ 40"
  shows "(1 / 1000) / (1 + (1 / 10) * (x + 1)) * (1 + 1 / 2 ^ 49)
       < (1 / 1000) / (1 + (1 / 10) * x) * (1 - 1 / 2 ^ 49 :: real)"
proof -
  have eq1: "(1 / 1000) / (1 + (1 / 10) * (x + 1)) = 1 / (100 * (11 + x))"
    using assms(1) by (simp add: field_simps)
  have eq2: "(1 / 1000) / (1 + (1 / 10) * x) = 1 / (100 * (10 + x))"
    using assms(1) by (simp add: field_simps)
  have lin: "(1 + 1 / 2 ^ 49) * (100 * (10 + x)) < (1 - 1 / 2 ^ 49) * (100 * (11 + x))"
    using assms by (simp add: algebra_simps)
  have "(1 + 1 / 2 ^ 49) / (100 * (11 + x)) < (1 - 1 / 2 ^ 49) / (100 * (10 + x))"
    using assms(1) lin by (simp add: divide_less_eq pos_less_divide_eq field_simps)
  then show ?thesis unfolding eq1 eq2 by simp
qed

lemma lr_schedule_step:
  assumes "e < 2 ^ 40"
  shows "\<exists>a b. lr_schedule e = Inr a \<and> lr_schedule (Suc e) = Inr b \<and> b < a"
proof -
  let ?A = "(1 / 1000) / (1 + (1 / 10) * real e)"
  let ?B = "(1 / 1000) / (1 + (1 / 10) * (real e + 1))"
  have e1: "e < 2 ^ 1000"
  proof -
    have "(2 :: nat) ^ 40 \<le> 2 ^ 1000" by (rule power_increasing) simp_all
    then show ?thesis using assms by linarith
  qed
  have e2: "Suc e < 2 ^ 1000"
  proof -
    have "(2 :: nat) ^ 41 \<le> 2 ^ 1000" by (rule power_increasing) simp_all
    moreover have "Suc e < 2 ^ 41" using assms by simp
    ultimately show ?thesis by linarith
  qed
  obtain a where a: "lr_schedule e = Inr a" and ab: "\<bar>a - ?A\<bar> \<le> ?A / 2 ^ 49"
    using lr_schedule_bound [OF e1] by blast
  obtain b where b: "lr_schedule (Suc e) = Inr b"
    and bb: "\<bar>b - (1 / 1000) / (1 + (1 / 10) * real (Suc e))\<bar>
       \<le> ((1 / 1000) / (1 + (1 / 10) * real (Suc e))) / 2 ^ 49"
    using lr_schedule_bound [OF e2] by blast
  have s: "real (Suc e) = real e + 1" by simp
  have bb': "\<bar>b - ?B\<bar> \<le> ?B / 2 ^ 49" using bb unfolding s .
  have x: "real e < 2 ^ 40" using assms
    by (metis of_nat_less_iff of_nat_numeral of_nat_power)
  have gap: "?B * (1 + 1 / 2 ^ 49) < ?A * (1 - 1 / 2 ^ 49)"
    by (rule closed_form_gap) (use x in simp_all)
  have "b \<le> ?B + ?B / 2 ^ 49" using bb' by linarith
  also have "\<dots> = ?B * (1 + 1 / 2 ^ 49)" by (simp only: distrib_left) simp
  also have "\<dots> < ?A * (1 - 1 / 2 ^ 49)" by (rule gap)
  also have "\<dots> = ?A - ?A / 2 ^ 49" by (simp only: right_diff_distrib) simp
  also have "\<dots> \<le> a" using ab by linarith
  finally show ?thesis using a b by blast
qed

lemma lr_schedule_strict:
  assumes "e < e'" and "e' \<le> 2 ^ 40"
  shows "\<exists>a b. lr_schedule e = Inr a \<and> lr_schedule e' = Inr b \<and> b < a"
proof -
  have e: "e < 2 ^ 40" using assms by linarith
  obtain a c where a: "lr_schedule e = Inr a" and c: "lr_schedule (Suc e) = Inr c" and ca: "c < a"
    using lr_schedule_step [OF e] by blast
  have "e' < 2 ^ 1000"
  proof -
    have "(2 :: nat) ^ 40 < 2 ^ 1000" by (rule power_strict_increasing) simp_all
    then show ?thesis using assms(2) by linarith
  qed
  then obtain b where b: "lr_schedule e' = Inr b"
    using lr_schedule_bound by blast
  have "Suc e \<le> e'" using assms(1) by simp
  then have "b \<le> c" using c b by (rule lr_schedule_mono)
  then show ?thesis using a b ca by auto
qed

lemma lr_schedule_overflow: "lr_schedule (2 ^ 1024) = Inl OverflowError"
proof -
  have "rne (real ((2 :: nat) ^ 1024)) = 2 ^ 1024"
    using rne_power2 [of 1024] by simp
  then have "float_of_int (2 ^ 1024) = Inl OverflowError"
    by (simp only: float_of_int_def) simp
  then show ?thesis by (simp only: lr_schedule_def Let_def sum.case)
qed

text \<open>
  Claim C4, as the code has it. In double arithmetic \<open>lr(0) == 0.001\<close> holds: at epoch 0 the
  schedule returns the double that the literal \<^verbatim>\<open>0.001\<close> denotes. At every epoch index
  \<open>e < 2\<^sup>1\<^sup>0\<^sup>0\<^sup>0\<close> it returns a double within the relative distance \<open>2\<^sup>-\<^sup>4\<^sup>9\<close> of the real
  quotient \<open>0.001 / (1 + 0.1 * e)\<close>: the result of the four rounded operations of the source,
  which is not always the double that the expression \<^verbatim>\<open>0.001 / (1.0 + 0.1 * e)\<close> yields. The
  schedule is strictly decreasing over the epochs up to \<open>2\<^sup>4\<^sup>0\<close>, and non-increasing wherever
  it returns a value.
\<close>

theorem lr_schedule_decay:
  "lr_schedule 0 = Inr (rne 0.001)
   \<and> (\<forall>e < 2 ^ 1000. \<exists>a. lr_schedule e = Inr a
         \<and> \<bar>a - 0.001 / (1 + 0.1 * real e)\<bar> \<le> (0.001 / (1 + 0.1 * real e)) / 2 ^ 49)
   \<and> (\<forall>e e'. e < e' \<and> e' \<le> 2 ^ 40 \<longrightarrow>
         (\<exists>a b. lr_schedule e = Inr a \<and> lr_schedule e' = Inr b \<and> b < a))
   \<and> (\<forall>e e' a b. e \<le> e' \<and> lr_schedule e = Inr a \<and> lr_schedule e' = Inr b \<longrightarrow> b \<le> a)"
proof (intro conjI allI impI)
  show "lr_schedule 0 = Inr (rne 0.001)" by (rule lr_schedule_0)
next
  fix e :: nat assume "e < 2 ^ 1000"
  then show "\<exists>a. lr_schedule e = Inr a
         \<and> \<bar>a - 0.001 / (1 + 0.1 * real e)\<bar> \<le> (0.001 / (1 + 0.1 * real e)) / 2 ^ 49"
    using lr_schedule_bound [of e] by simp
next
  fix e e' :: nat assume "e < e' \<and> e' \<le> 2 ^ 40"
  then show "\<exists>a b. lr_schedule e = Inr a \<and> lr_schedule e' = Inr b \<and> b < a"
    using lr_schedule_strict by blast
next
  fix e e' :: nat and a b :: real
  assume "e \<le> e' \<and> lr_schedule e = Inr a \<and> lr_schedule e' = Inr b"
  then show "b \<le> a" using lr_schedule_mono by blast
qed

theorem lr_schedule_decay_witness:
  "(\<exists>a. lr_schedule 4 = Inr a \<and> \<bar>a - 0.001 / (1 + 0.1 * real (4 :: nat))\<bar>
        \<le> (0.001 / (1 + 0.1 * real (4 :: nat))) / 2 ^ 49)
   \<and> (\<exists>a b. lr_schedule 3 = Inr a \<and> lr_schedule 4 = Inr b \<and> b < a)
   \<and> lr_schedule 0 = Inr (rne 0.001)
   \<and> 6588122883467697 / 2 ^ 63 \<le> rne 0.001"
proof -
  have a: "(4 :: nat) < 2 ^ 1000" by simp
  have b: "(3 :: nat) < 4 \<and> (4 :: nat) \<le> 2 ^ 40" by simp
  have c: "(0 :: nat) \<le> 4 \<and> lr_schedule 0 = Inr (rne 0.001)
      \<and> lr_schedule 4 = Inr (6588122883467697 / 2 ^ 63)"
    using lr_schedule_0 lr_schedule_4 by simp
  show ?thesis
    using lr_schedule_decay a b c by blast
qed

text \<open>
  The claim as the specification words it fails on doubles. At epoch 4, an epoch that Keras
  passes, the schedule returns \<open>6588122883467697 * 2\<^sup>-\<^sup>6\<^sup>3\<close> (0.0007142857142857143) while
  the closed form \<^verbatim>\<open>0.001 / (1.0 + 0.1 * 4)\<close> is \<open>6588122883467698 * 2\<^sup>-\<^sup>6\<^sup>3\<close>
  (0.0007142857142857144). The epochs \<open>10\<^sup>1\<^sup>6\<close> and \<open>10\<^sup>1\<^sup>6 + 1\<close> convert to the same double
  and get the same rate, so the schedule is not strictly decreasing there. An epoch of
  \<open>2\<^sup>1\<^sup>0\<^sup>2\<^sup>4\<close> has no rate: the conversion raises \<^verbatim>\<open>OverflowError\<close>.
\<close>

theorem lr_schedule_counterexample:
  "lr_schedule 4 = Inr (6588122883467697 / 2 ^ 63)
   \<and> fdiv (rne 0.001) (fadd 1.0 (fmul (rne 0.1) 4)) = 6588122883467698 / 2 ^ 63
   \<and> lr_schedule 4 \<noteq> Inr (fdiv (rne 0.001) (fadd 1.0 (fmul (rne 0.1) 4)))
   \<and> lr_schedule (10 ^ 16) = Inr (fmul (rne 0.001) (fdiv 1.0 (fadd 1.0 (fmul (rne 0.1) (10 ^ 16)))))
   \<and> lr_schedule (10 ^ 16 + 1) = lr_schedule (10 ^ 16)
   \<and> lr_schedule (2 ^ 1024) = Inl OverflowError"
proof -
  have "lr_schedule (10 ^ 16)
      = Inr (fmul (rne 0.001) (fdiv 1.0 (fadd 1.0 (fmul (rne 0.1) (10 ^ 16)))))"
    by (simp only: lr_schedule_def Let_def float_of_int_tie sum.case)
  then show ?thesis
    using lr_schedule_4 closed_form_4 lr_schedule_4_differs lr_schedule_tie lr_schedule_overflow
    by simp
qed

subsection \<open>Class weights\<close>

lemma count_list_pos: "k \<in> set y \<Longrightarrow> 0 < count_list y k"
  by (induction y) auto

lemma degenerate_iff: "degenerate y \<longleftrightarrow> y = []"
proof (cases y)
  case Nil
  then show ?thesis by (simp add: degenerate_def np_unique_def)
next
  case (Cons a ys)
  then have ne: "y \<noteq> []" by simp
  then have "remdups y \<noteq> []" by (metis remdups_eq_nil_iff)
  then have "sort (remdups y) \<noteq> []" by (metis length_0_conv length_sort)
  moreover have "\<forall>k \<in> set y. count_list y k \<noteq> 0"
    using count_list_pos by fastforce
  ultimately have "\<not> degenerate y"
    by (auto simp: degenerate_def np_unique_def Let_def list_ex_iff)
  then show ?thesis using ne by simp
qed

lemma zip_tabulate: "zip xs (map f xs) = map (\<lambda>k. (k, f k)) xs"
  by (induction xs) auto

lemma map_of_tabulate: "k \<in> set xs \<Longrightarrow> map_of (map (\<lambda>k. (k, f k)) xs) k = Some (f k)"
  by (induction xs) auto

lemma class_weights_nondegenerate:
  assumes "\<not> degenerate y"
  shows "class_weights y =
    map (\<lambda>k. (k, fdiv (np_float64 (length y))
                  (np_float64 (length (sort (remdups y)) * count_list y k))))
      (sort (remdups y))"
  using assms
  by (simp add: class_weights_def degenerate_def np_unique_def Let_def zip_tabulate comp_def)

lemma weight_formula:
  assumes "\<not> degenerate y" and "k \<in> set y"
  shows "map_of (class_weights y) k =
     Some (fdiv (np_float64 (length y)) (np_float64 (length (fst (np_unique y)) * count_list y k)))"
  using assms by (simp add: class_weights_nondegenerate map_of_tabulate np_unique_def Let_def)

lemma class_weights_keys:
  assumes "l \<in> set y"
  shows "\<exists>w. map_of (class_weights y) l = Some w"
proof -
  have "y \<noteq> []" using assms by auto
  then have "\<not> degenerate y" by (simp add: degenerate_iff)
  then show ?thesis using weight_formula assms by blast
qed

lemma lookup_weights_defined:
  assumes "\<forall>l \<in> set ls. \<exists>w. map_of cw l = Some w"
  shows "\<exists>sw. lookup_weights cw ls = Inr sw"
  using assms by (induction ls) auto

lemma sample_weights_returns: "\<exists>sw. sample_weights y = Inr sw"
  unfolding sample_weights_def
  by (intro lookup_weights_defined ballI class_weights_keys)

lemma lookup_weights_positive:
  assumes "\<forall>l \<in> set ls. \<exists>w. map_of cw l = Some w \<and> 0 < w"
  shows "\<exists>sw. lookup_weights cw ls = Inr sw \<and> length sw = length ls \<and> (\<forall>w \<in> set sw. 0 < w)"
  using assms by (induction ls) auto

lemma num_classes_le: "length (sort (remdups y)) \<le> length y"
  by (simp add: length_remdups_leq)

lemma count_list_le: "count_list y k \<le> length y"
  by (rule count_le_length)

lemma product_small:
  assumes "length y < 2 ^ 26"
  shows "length (sort (remdups y)) * count_list y k < 2 ^ 52"
proof -
  have "length (sort (remdups y)) * count_list y k \<le> length y * length y"
    by (intro mult_le_mono num_classes_le count_list_le)
  also have "\<dots> < 2 ^ 26 * 2 ^ 26"
    using assms by (intro mult_strict_mono) simp_all
  finally show ?thesis by simp
qed

lemma weight_exact:
  assumes "\<not> degenerate y" and "length y < 2 ^ 26" and "k \<in> set y"
  shows "map_of (class_weights y) k =
     Some (fdiv (real (length y)) (real (length (fst (np_unique y)) * count_list y k)))"
proof -
  have a: "length y < 2 ^ 53"
  proof -
    have "(2 :: nat) ^ 26 \<le> 2 ^ 53" by (rule power_increasing) simp_all
    then show ?thesis using assms(2) by linarith
  qed
  have b: "length (sort (remdups y)) * count_list y k < 2 ^ 53"
  proof -
    have "(2 :: nat) ^ 52 \<le> 2 ^ 53" by (rule power_increasing) simp_all
    then show ?thesis using product_small [OF assms(2), of k] by linarith
  qed
  show ?thesis
    using weight_formula [OF assms(1,3)] np_float64_exact [OF a] np_float64_exact [OF b]
    by (simp add: np_unique_def Let_def)
qed

lemma num_classes_pos: "y \<noteq> [] \<Longrightarrow> 0 < length (sort (remdups y))"
  by simp

lemma foldl_fadd_close:
  assumes "\<forall>t \<in> set ts. close_to 2 v t \<and> pow2 (- 1022) \<le> t" and "0 \<le> v"
    and "close_to (m + 2) (real m * v) acc" and "0 \<le> acc"
  shows "close_to (m + length ts + 2) (real (m + length ts) * v) (foldl fadd acc ts)"
  using assms
proof (induction ts arbitrary: acc m)
  case Nil
  then show ?case by simp
next
  case (Cons t ts)
  have t: "close_to 2 v t" "pow2 (- 1022) \<le> t" using Cons.prems(1) by simp_all
  have t2: "close_to (m + 2) v t"
    using t(1) by (rule close_weaken) (use Cons.prems(2) in simp_all)
  have s: "close_to (m + 2) (real m * v + v) (acc + t)"
    using Cons.prems(3) t2 by (rule close_add)
  have n: "pow2 (- 1022) \<le> acc + t" using t(2) Cons.prems(4) by linarith
  have v: "0 \<le> real m * v + v" using Cons.prems(2) by simp
  have "close_to (Suc (m + 2)) (real m * v + v) (rne (acc + t))"
    using s n v by (rule close_rne)
  then have c: "close_to (Suc m + 2) (real (Suc m) * v) (fadd acc t)"
    by (simp add: fadd_def algebra_simps)
  have "0 \<le> acc + t" using n pow2_pos [of "- 1022"] by linarith
  then have nn: "0 \<le> fadd acc t" unfolding fadd_def by (rule rne_nonneg)
  have r: "\<forall>t \<in> set ts. close_to 2 v t \<and> pow2 (- 1022) \<le> t" using Cons.prems(1) by simp
  have "close_to (Suc m + length ts + 2) (real (Suc m + length ts) * v) (foldl fadd (fadd acc t) ts)"
    using r Cons.prems(2) c nn by (rule Cons.IH)
  then show ?case by simp
qed

lemma weight_close:
  assumes "\<not> degenerate y" and "length y < 2 ^ 26" and "k \<in> set y"
  defines "D \<equiv> length (sort (remdups y)) * count_list y k"
  shows "close_to 1 (real (length y) / real D) (fdiv (real (length y)) (real D))"
    and "1 / 2 ^ 52 \<le> fdiv (real (length y)) (real D)"
proof -
  have c: "0 < count_list y k" using assms(3) by (rule count_list_pos)
  have ne: "y \<noteq> []" using assms(3) by auto
  then have n: "0 < length (sort (remdups y))" by (rule num_classes_pos)
  have D0: "0 < D" unfolding D_def using c n by simp
  have "D < 2 ^ 52" unfolding D_def using assms(2) by (rule product_small)
  then have "real D < real (2 ^ 52)" by (simp only: of_nat_less_iff)
  then have D1: "real D \<le> 2 ^ 52" by simp
  have T: "1 \<le> real (length y)" using ne by (cases y) simp_all
  have "1 / 2 ^ 52 \<le> 1 / real D"
    using D0 D1 by (intro divide_left_mono) simp_all
  also have "\<dots> \<le> real (length y) / real D"
    using T D0 by (intro divide_right_mono) simp_all
  finally have q: "1 / 2 ^ 52 \<le> real (length y) / real D" .
  have tiny: "pow2 (- 1022) \<le> (1 / 2 ^ 52 :: real)" by (rule tiny_le) simp
  have "pow2 (- 1022) \<le> real (length y) / real D" using tiny q by linarith
  then show "close_to 1 (real (length y) / real D) (fdiv (real (length y)) (real D))"
    unfolding fdiv_def by (rule close_rne_exact)
  have "rne (1 / 2 ^ 52) \<le> rne (real (length y) / real D)"
    using q by (intro rne_mono) simp_all
  then show "1 / 2 ^ 52 \<le> fdiv (real (length y)) (real D)"
    using rne_inverse_power2 [of 52] by (simp add: fdiv_def)
qed

lemma sample_weights_positive:
  assumes "\<not> degenerate y" and "length y < 2 ^ 26"
  shows "\<exists>sw. sample_weights y = Inr sw \<and> length sw = length y \<and> (\<forall>w \<in> set sw. 0 < w)"
proof -
  have "\<exists>w. map_of (class_weights y) l = Some w \<and> 0 < w" if "l \<in> set y" for l
  proof -
    have "(0 :: real) < 1 / 2 ^ 52" by simp
    also have "\<dots> \<le> fdiv (real (length y)) (real (length (sort (remdups y)) * count_list y l))"
      using weight_close(2) [OF assms that] .
    finally show ?thesis using weight_exact [OF assms that] by (simp add: np_unique_def Let_def)
  qed
  then show ?thesis unfolding sample_weights_def
    by (intro lookup_weights_positive) blast
qed

lemma term_close:
  assumes "\<not> degenerate y" and "length y < 2 ^ 26" and "k \<in> set y"
  defines "n \<equiv> length (sort (remdups y))"
  defines "t \<equiv> (case map_of (class_weights y) k of
                   Some w \<Rightarrow> fmul w (np_float64 (count_list y k)) | None \<Rightarrow> 0)"
  shows "close_to 2 (real (length y) / real n) t \<and> pow2 (- 1022) \<le> t"
proof -
  define c where "c = count_list y k"
  define w where "w = fdiv (real (length y)) (real (n * c))"
  have c0: "0 < c" unfolding c_def using assms(3) by (rule count_list_pos)
  have ne: "y \<noteq> []" using assms(3) by auto
  then have n0: "0 < n" unfolding n_def by (rule num_classes_pos)
  have cl: "c < 2 ^ 53"
  proof -
    have "c \<le> length y" unfolding c_def by (rule count_list_le)
    moreover have "(2 :: nat) ^ 26 \<le> 2 ^ 53" by (rule power_increasing) simp_all
    ultimately show ?thesis using assms(2) by linarith
  qed
  have m: "map_of (class_weights y) k = Some w"
    using weight_exact [OF assms(1-3)] by (simp add: w_def n_def c_def np_unique_def Let_def)
  have t: "t = rne (w * real c)"
    using m np_float64_exact [OF cl] by (simp add: t_def fmul_def c_def)
  have wc: "close_to 1 (real (length y) / real (n * c)) w"
    and wl: "1 / 2 ^ 52 \<le> w"
    using weight_close [OF assms(1-3)] by (simp_all add: w_def n_def c_def)
  have T: "0 < real (length y)" using ne by simp
  have q: "0 < real (length y) / real (n * c)" using T n0 c0 by simp
  have "close_to (1 + 0) (real (length y) / real (n * c) * real c) (w * real c)"
    using wc close_0 q by (rule close_mult) (use c0 in simp)
  moreover have "real (length y) / real (n * c) * real c = real (length y) / real n"
    using c0 n0 by simp
  ultimately have p: "close_to 1 (real (length y) / real n) (w * real c)" by simp
  have "1 / 2 ^ 52 * 1 \<le> w * real c"
    using wl c0 by (intro mult_mono) simp_all
  then have lo: "1 / 2 ^ 52 \<le> w * real c" by simp
  have tiny: "pow2 (- 1022) \<le> (1 / 2 ^ 52 :: real)" by (rule tiny_le) simp
  have nrm: "pow2 (- 1022) \<le> w * real c" using tiny lo by linarith
  have v: "0 \<le> real (length y) / real n" by simp
  have "close_to (Suc 1) (real (length y) / real n) (rne (w * real c))"
    using p nrm v by (rule close_rne)
  then have a: "close_to 2 (real (length y) / real n) t" by (simp add: t numeral_2_eq_2)
  have "rne (1 / 2 ^ 52) \<le> rne (w * real c)" using lo by (intro rne_mono) simp_all
  then have "1 / 2 ^ 52 \<le> t" using rne_inverse_power2 [of 52] by (simp add: t)
  then have b: "pow2 (- 1022) \<le> t" using tiny by linarith
  show ?thesis using a b by simp
qed

lemma weighted_class_total_close:
  assumes "\<not> degenerate y" and "length y < 2 ^ 26"
  shows "close_to (length (fst (np_unique y)) + 2) (real (length y)) (weighted_class_total y)"
proof -
  let ?u = "sort (remdups y)"
  let ?n = "length ?u"
  let ?prod = "\<lambda>k. case map_of (class_weights y) k of
                   Some w \<Rightarrow> fmul w (np_float64 (count_list y k)) | None \<Rightarrow> 0"
  have ne: "y \<noteq> []" using assms(1) by (simp add: degenerate_iff)
  then have n0: "0 < ?n" by (rule num_classes_pos)
  have w: "weighted_class_total y = foldl fadd 0 (map ?prod ?u)"
    by (simp add: weighted_class_total_def np_unique_def Let_def zip_tabulate comp_def)
  have each: "\<forall>t \<in> set (map ?prod ?u). close_to 2 (real (length y) / real ?n) t \<and> pow2 (- 1022) \<le> t"
  proof
    fix t assume "t \<in> set (map ?prod ?u)"
    then obtain k where k: "k \<in> set y" and t: "t = ?prod k" by auto
    show "close_to 2 (real (length y) / real ?n) t \<and> pow2 (- 1022) \<le> t"
      unfolding t using assms k by (rule term_close)
  qed
  have "close_to (0 + length (map ?prod ?u) + 2) (real (0 + length (map ?prod ?u)) * (real (length y) / real ?n))
      (foldl fadd 0 (map ?prod ?u))"
    using each by (rule foldl_fadd_close) (simp_all add: close_to_def)
  moreover have "real ?n * (real (length y) / real ?n) = real (length y)" using n0 by simp
  ultimately show ?thesis using w by (simp add: np_unique_def Let_def)
qed

lemma weighted_class_total_bound:
  assumes "\<not> degenerate y" and "length y < 2 ^ 26"
  shows "\<bar>weighted_class_total y - real (length y)\<bar>
     \<le> real (length y) * real (length (fst (np_unique y)) + 2) / 2 ^ 52"
proof -
  have "length (fst (np_unique y)) \<le> length y"
    by (simp add: np_unique_def Let_def length_remdups_leq)
  then have "length (fst (np_unique y)) + 2 \<le> 2 ^ 26 + 2" using assms(2) by linarith
  also have "\<dots> \<le> (2 :: nat) ^ 52" by simp
  finally have "real (length (fst (np_unique y)) + 2) \<le> real (2 ^ 52)"
    by (simp only: of_nat_le_iff)
  then have m: "real (length (fst (np_unique y)) + 2) \<le> 2 ^ 52" by simp
  show ?thesis
    using weighted_class_total_close [OF assms] _ m by (rule close_bound) simp
qed

lemma rne_small_naturals: "rne 2 = 2" "rne 3 = 3" "rne 4 = 4"
  using rne_nat_exact [of 2] rne_nat_exact [of 3] rne_nat_exact [of 4] by simp_all

lemma rne_three_halves: "rne (3 / 2) = 3 / 2"
proof -
  have "rne (3 / 2) = of_int 6755399441055744 * pow2 (0 - 52)"
  proof (rule rne_is)
    show "round_even (3 / 2 / pow2 (0 - 52)) = 6755399441055744"
      by (simp add: pow2_neg_numeral round_even_def Let_def)
  qed (simp_all add: pow2_1)
  then show ?thesis by (simp add: pow2_neg_numeral)
qed

lemma rne_three_quarters: "rne (3 / 4) = 3 / 4"
proof -
  have "rne (3 / 4) = of_int 6755399441055744 * pow2 (- 1 - 52)"
  proof (rule rne_is)
    show "round_even (3 / 4 / pow2 (- 1 - 52)) = 6755399441055744"
      by (simp add: pow2_neg_numeral round_even_def Let_def)
  qed (simp_all add: pow2_1)
  then show ?thesis by (simp add: pow2_neg_numeral)
qed

lemma sample_weights_single: "sample_weights [0] = Inr [1]"
  by (simp add: sample_weights_def class_weights_def np_unique_def np_float64_def fdiv_def)

lemma sample_weights_three: "sample_weights [0, 0, 1] = Inr [3 / 4, 3 / 4, 3 / 2]"
  by (simp add: sample_weights_def class_weights_def np_unique_def Let_def np_float64_def fdiv_def
      rne_small_naturals rne_three_halves rne_three_quarters)

text \<open>
  Claim C1, as the code has it. For a label vector of fewer than \<open>2\<^sup>2\<^sup>6\<close> labels whose class
  distribution is not degenerate, the class-weighting step of \<^verbatim>\<open>fit\<close> returns one weight per
  sample, each strictly positive; the weight of a class \<open>c\<close> is the double quotient
  \<open>totalSamples / (numClasses * count(c))\<close>; and the sum over the classes of
  \<open>weight(c) * count(c)\<close> equals \<open>totalSamples\<close> up to floating tolerance, a relative error of
  at most \<open>(numClasses + 2) * 2\<^sup>-\<^sup>5\<^sup>2\<close> (each class contributes \<open>totalSamples / numClasses\<close>);
  it is not \<open>totalSamples * numClasses\<close>.
\<close>

theorem class_weighting_total:
  assumes "\<not> degenerate y" and "length y < 2 ^ 26"
  shows "(\<exists>sw. sample_weights y = Inr sw \<and> length sw = length y \<and> (\<forall>w \<in> set sw. 0 < w))
    \<and> (\<forall>k \<in> set y. map_of (class_weights y) k =
          Some (fdiv (real (length y)) (real (length (fst (np_unique y)) * count_list y k))))
    \<and> \<bar>weighted_class_total y - real (length y)\<bar>
         \<le> real (length y) * real (length (fst (np_unique y)) + 2) / 2 ^ 52"
  using assms sample_weights_positive weight_exact weighted_class_total_bound by blast

theorem class_weighting_total_witness:
  "\<not> degenerate [0, 0, 1] \<and> length [0, 0, 1 :: int] < 2 ^ 26
   \<and> sample_weights [0, 0, 1] = Inr [3 / 4, 3 / 4, 3 / 2]
   \<and> map_of (class_weights [0, 0, 1]) 1 = Some (fdiv 3 2)
   \<and> \<bar>weighted_class_total [0, 0, 1] - 3\<bar> \<le> 3 * 4 / 2 ^ 52"
proof -
  have h: "\<not> degenerate [0, 0, 1]"
    by (simp add: degenerate_iff)
  have l: "length [0, 0, 1 :: int] < 2 ^ 26" by simp
  have n: "length (fst (np_unique [0, 0, 1])) = 2" by (simp add: np_unique_def)
  have "\<bar>weighted_class_total [0, 0, 1] - real (length [0, 0, 1 :: int])\<bar>
      \<le> real (length [0, 0, 1 :: int]) * real (length (fst (np_unique [0, 0, 1])) + 2) / 2 ^ 52"
    using class_weighting_total [OF h l] by blast
  then have a: "\<bar>weighted_class_total [0, 0, 1] - 3\<bar> \<le> 3 * 4 / 2 ^ 52"
    by (simp add: n)
  have "\<forall>k \<in> set [0, 0, 1 :: int]. map_of (class_weights [0, 0, 1]) k =
      Some (fdiv (real (length [0, 0, 1 :: int]))
              (real (length (fst (np_unique [0, 0, 1])) * count_list [0, 0, 1 :: int] k)))"
    using class_weighting_total [OF h l] by blast
  then have b: "map_of (class_weights [0, 0, 1]) 1 = Some (fdiv 3 2)"
    by (simp add: n)
  show ?thesis using h l a b sample_weights_three by simp
qed

text \<open>
  The claim as the specification words it fails for two classes of one sample each: the sum
  is 2, while \<open>totalSamples * numClasses\<close> is 4.
\<close>

theorem class_weighting_product_counterexample:
  "\<not> degenerate [0, 1] \<and> length [0, 1 :: int] < 2 ^ 26
   \<and> weighted_class_total [0, 1] = 2
   \<and> real (length [0, 1 :: int]) * real (length (fst (np_unique [0, 1]))) = 4"
  by (simp add: degenerate_iff weighted_class_total_def class_weights_def np_unique_def Let_def
      np_float64_def fdiv_def fmul_def fadd_def rne_small_naturals)

subsection \<open>Class balancing\<close>

lemma min_samples_Min:
  assumes "y \<noteq> []"
  shows "min_samples y = Some (Min (count_list y ` set y))"
proof -
  obtain c cs where cs: "value_counts y = c # cs"
    using assms by (cases "value_counts y") (auto simp: value_counts_def)
  have "fold min cs c = Min (set (c # cs))"
    by (rule Min.set_eq_fold [symmetric])
  also have "set (c # cs) = count_list y ` set y"
    using cs by (metis list.set_map set_remdups value_counts_def)
  finally show ?thesis using cs by (simp add: min_samples_def)
qed

lemma min_samples_small:
  assumes "k \<in> set y" and "count_list y k < 2"
  shows "\<exists>n. min_samples y = Some n \<and> n < 2"
proof -
  have "y \<noteq> []" using assms(1) by auto
  moreover have "Min (count_list y ` set y) \<le> count_list y k"
    using assms(1) by simp
  ultimately show ?thesis using assms(2) by (simp add: min_samples_Min)
qed

text \<open>
  Claim C2. When some class of the dataset has fewer than 2 samples, the balancer returns
  the features and the labels it was given (and does not call the oversampler); when the
  oversampler raises, whatever the exception, it returns them as well.
\<close>

theorem balance_returns_input:
  "(k \<in> set y \<and> count_list y k < 2 \<longrightarrow> balance_data_with_smote env X y = ((X, y), []))
   \<and> (smote env (k_neighbors (min_samples y)) X y = Inl e \<longrightarrow>
        fst (balance_data_with_smote env X y) = (X, y))"
proof (intro conjI impI)
  assume "k \<in> set y \<and> count_list y k < 2"
  then obtain n where "min_samples y = Some n" and "n < 2"
    using min_samples_small by blast
  then show "balance_data_with_smote env X y = ((X, y), [])"
    by (simp add: balance_data_with_smote_def)
next
  assume "smote env (k_neighbors (min_samples y)) X y = Inl e"
  then show "fst (balance_data_with_smote env X y) = (X, y)"
    by (simp add: balance_data_with_smote_def Let_def)
qed

theorem balance_returns_input_witness:
  "(1::int) \<in> set [0, 0, 0, 0, 0, 1] \<and> count_list [0, 0, 0, 0, 0, 1] (1::int) < 2
   \<and> balance_data_with_smote demo_env [[Fin 1], [Fin 2], [Fin 3], [Fin 4], [Fin 5], [Fin 6]] [0, 0, 0, 0, 0, 1]
       = (([[Fin 1], [Fin 2], [Fin 3], [Fin 4], [Fin 5], [Fin 6]], [0, 0, 0, 0, 0, 1]), [])
   \<and> smote (demo_env\<lparr>smote := \<lambda>k X y. Inl (Raised ''ValueError'')\<rparr>)
        (k_neighbors (min_samples [0, 0, 1, 1])) [[Fin 1], [Fin 2], [Fin 3], [Fin 4]] [0, 0, 1, 1]
       = Inl (Raised ''ValueError'')
   \<and> balance_data_with_smote (demo_env\<lparr>smote := \<lambda>k X y. Inl (Raised ''ValueError'')\<rparr>)
        [[Fin 1], [Fin 2], [Fin 3], [Fin 4]] [0, 0, 1, 1]
       = (([[Fin 1], [Fin 2], [Fin 3], [Fin 4]], [0, 0, 1, 1]), [SmoteResample 1])"
proof -
  let ?env = "demo_env\<lparr>smote := \<lambda>k X y. Inl (Raised ''ValueError'')\<rparr>"
  let ?X = "[[Fin 1], [Fin 2], [Fin 3], [Fin 4]]"
  let ?X6 = "[[Fin 1], [Fin 2], [Fin 3], [Fin 4], [Fin 5], [Fin 6]]"
  have a: "(1::int) \<in> set [0, 0, 0, 0, 0, 1] \<and> count_list [0, 0, 0, 0, 0, 1] (1::int) < 2"
    by simp
  have b: "smote ?env (k_neighbors (min_samples [0, 0, 1, 1])) ?X [0, 0, 1, 1]
      = Inl (Raised ''ValueError'')"
    by simp
  have "balance_data_with_smote demo_env ?X6 [0, 0, 0, 0, 0, 1] = ((?X6, [0, 0, 0, 0, 0, 1]), [])"
    using a balance_returns_input [of 1 "[0, 0, 0, 0, 0, 1]" demo_env ?X6] by blast
  moreover have "fst (balance_data_with_smote ?env ?X [0, 0, 1, 1]) = (?X, [0, 0, 1, 1])"
    using b balance_returns_input [of _ "[0, 0, 1, 1]" ?env ?X] by blast
  moreover have "snd (balance_data_with_smote ?env ?X [0, 0, 1, 1]) = [SmoteResample 1]"
    by (simp add: balance_data_with_smote_def k_neighbors_def min_samples_def value_counts_def)
  ultimately show ?thesis using a b by (simp add: prod_eq_iff)
qed

subsection \<open>Connection\<close>

lemma range_max_retries: "[0..<max_retries] = [0, 1, 2, 3, 4, 5, 6, 7, 8, 9]"
  by (simp add: max_retries_def upt_rec)

lemma attempt_body_not_ready:
  "channel_ready env a = Inl e \<Longrightarrow> attempt_body env m X y a = (Inl e, m)"
  by (simp add: attempt_body_def)

text \<open>
  Claim C5. With a channel that never becomes ready, the loop makes exactly 10 attempts,
  sleeps 10 time units after each of the first nine and not after the last, and then
  raises the exception of the 10th attempt, which ends \<^verbatim>\<open>run_client\<close>.
\<close>

theorem connection_never_ready:
  assumes "\<forall>a. channel_ready env a = Inl (err a)"
  shows "connect_loop env m X y [0..<max_retries] =
     (Inl (err 9),
      [ConnectAttempt 0, Sleep 10, ConnectAttempt 1, Sleep 10, ConnectAttempt 2, Sleep 10,
       ConnectAttempt 3, Sleep 10, ConnectAttempt 4, Sleep 10, ConnectAttempt 5, Sleep 10,
       ConnectAttempt 6, Sleep 10, ConnectAttempt 7, Sleep 10, ConnectAttempt 8, Sleep 10,
       ConnectAttempt 9])
    \<and> (prepare env X_dev y_dev = (Inr (m, X, y), events) \<longrightarrow>
         fst (run_client env X_dev y_dev) = Inl (err 9))"
proof -
  have loop: "connect_loop env m X y [0..<max_retries] =
     (Inl (err 9),
      [ConnectAttempt 0, Sleep 10, ConnectAttempt 1, Sleep 10, ConnectAttempt 2, Sleep 10,
       ConnectAttempt 3, Sleep 10, ConnectAttempt 4, Sleep 10, ConnectAttempt 5, Sleep 10,
       ConnectAttempt 6, Sleep 10, ConnectAttempt 7, Sleep 10, ConnectAttempt 8, Sleep 10,
       ConnectAttempt 9])"
    unfolding range_max_retries using assms
    by (simp add: attempt_body_not_ready max_retries_def retry_delay_def)
  then show ?thesis
    by (simp add: run_client_def)
qed

theorem connection_never_ready_witness:
  "channel_ready demo_env 3 = Inl (Raised ''FutureTimeoutError'')
   \<and> connect_loop demo_env [[Fin 0]] [[Fin 1]] [0] [0..<max_retries] =
     (Inl (Raised ''FutureTimeoutError''),
      [ConnectAttempt 0, Sleep 10, ConnectAttempt 1, Sleep 10, ConnectAttempt 2, Sleep 10,
       ConnectAttempt 3, Sleep 10, ConnectAttempt 4, Sleep 10, ConnectAttempt 5, Sleep 10,
       ConnectAttempt 6, Sleep 10, ConnectAttempt 7, Sleep 10, ConnectAttempt 8, Sleep 10,
       ConnectAttempt 9])
   \<and> prepare demo_env [[Fin 1]] [0] = (Inr ([[Fin 0]], [[Fin 1]], [0]), [])
   \<and> fst (run_client demo_env [[Fin 1]] [0]) = Inl (Raised ''FutureTimeoutError'')"
proof -
  have h: "\<forall>a. channel_ready demo_env a = Inl (Raised ''FutureTimeoutError'')"
    by (simp add: demo_env_def)
  have p: "prepare demo_env [[Fin 1]] [0] = (Inr ([[Fin 0]], [[Fin 1]], [0]), [])"
    by (simp add: prepare_def balance_data_with_smote_def min_samples_def value_counts_def
        isnan_def isinf_def demo_env_def)
  show ?thesis
    using h p connection_never_ready [OF h, of "[[Fin 0]]" "[[Fin 1]]" "[0]" "[[Fin 1]]" "[0]" "[]"]
    by blast
qed

subsection \<open>Round counter\<close>

lemma fit_round: "round (snd (fit env p self)) = round self + 1"
  by (simp add: fit_def Let_def split: sum.split prod.split)

lemma evaluate_round: "round (snd (evaluate env p self)) = round self"
  by (simp add: evaluate_def Let_def split: sum.split prod.split)

lemma get_parameters_round: "round (snd (get_parameters env self)) = round self"
  by (simp add: get_parameters_def Let_def)

lemma serve_round: "round (serve env self r) = round self + (if is_fit r then 1 else 0)"
  by (cases r) (simp_all add: fit_round evaluate_round get_parameters_round)

lemma serve_all_round:
  "round (serve_all env self requests) = round self + int (length (filter is_fit requests))"
  unfolding serve_all_def
  by (induction requests arbitrary: self) (simp_all add: serve_round)

text \<open>
  Claim C8. The round counter of a new client is 0; every invocation of \<^verbatim>\<open>fit\<close> adds exactly
  1 to it, whatever the invocation returns or raises; \<^verbatim>\<open>get_parameters\<close> and \<^verbatim>\<open>evaluate\<close>
  leave it as it is; so after any sequence of requests it is the number of \<^verbatim>\<open>fit\<close>
  requests served, and it never goes down.
\<close>

theorem round_counter:
  "round (FeSEMClient m X y) = 0
   \<and> round (snd (fit env p self)) = round self + 1
   \<and> round (snd (get_parameters env self)) = round self
   \<and> round (snd (evaluate env p self)) = round self
   \<and> round self \<le> round (serve_all env self requests)
   \<and> round (serve_all env (FeSEMClient m X y) requests) = int (length (filter is_fit requests))"
  by (simp add: fit_round evaluate_round get_parameters_round serve_all_round FeSEMClient_def)

theorem round_counter_witness:
  "round (serve_all demo_env (FeSEMClient [[Fin 0]] [[Fin 1]] [0])
      [GetParameters, Fit (NotParameters [[Fin 2]]), Evaluate (NotParameters [[Fin 3]]),
       Fit (NotParameters []), GetParameters]) = 2"
  using round_counter [where m = "[[Fin 0]]" and X = "[[Fin 1]]" and y = "[0]" and env = demo_env
      and requests = "[GetParameters, Fit (NotParameters [[Fin 2]]),
        Evaluate (NotParameters [[Fin 3]]), Fit (NotParameters []), GetParameters]"]
  by simp
subsection \<open>Metrics history\<close>

lemma fit_history: "metrics_history (snd (fit env p self)) = metrics_history self"
  by (simp add: fit_def Let_def split: sum.split prod.split)

lemma get_parameters_history:
  "metrics_history (snd (get_parameters env self)) = metrics_history self"
  by (simp add: get_parameters_def Let_def)

lemma evaluate_history_cases:
  "metrics_history (snd (evaluate env p self)) = metrics_history self
   \<or> (\<exists>l a f. metrics_history (snd (evaluate env p self)) =
         \<lparr>loss = loss (metrics_history self) @ [(round self, l)],
          accuracy = accuracy (metrics_history self) @ [(round self, a)],
          f1_score = f1_score (metrics_history self) @ [(round self, f)]\<rparr>)"
  by (simp add: evaluate_def Let_def split: sum.split prod.split)

lemma evaluate_aligned:
  assumes "series_aligned (metrics_history self)"
  shows "series_aligned (metrics_history (snd (evaluate env p self)))"
  using assms evaluate_history_cases [of env p self]
  by (auto simp: series_aligned_def)

lemma serve_aligned:
  assumes "series_aligned (metrics_history self)"
  shows "series_aligned (metrics_history (serve env self r))"
  using assms by (cases r) (simp_all add: fit_history get_parameters_history evaluate_aligned)

lemma serve_all_aligned:
  assumes "series_aligned (metrics_history self)"
  shows "series_aligned (metrics_history (serve_all env self requests))"
  using assms unfolding serve_all_def
  by (induction requests arbitrary: self) (simp_all add: serve_aligned)

lemma evaluate_success_appends:
  assumes "fst (evaluate env p self) = Inr (l, n, ms)" and "0 < n"
  shows "\<exists>a f. ms = [(''accuracy'', a), (''f1_score'', f)]
     \<and> metrics_history (snd (evaluate env p self)) =
         \<lparr>loss = loss (metrics_history self) @ [(round self, l)],
          accuracy = accuracy (metrics_history self) @ [(round self, a)],
          f1_score = f1_score (metrics_history self) @ [(round self, f)]\<rparr>"
  using assms
  by (auto simp: evaluate_def Let_def zero_metrics_def split: sum.splits prod.splits if_splits)

lemma evaluate_fallback_keeps:
  assumes "fst (evaluate env p self) = Inr zero_metrics"
  shows "metrics_history (snd (evaluate env p self)) = metrics_history self"
  using assms
  by (auto simp: evaluate_def Let_def zero_metrics_def split: sum.splits prod.splits if_splits)

text \<open>
  Claim C10. The three series of the metrics history have equal lengths: in a new client,
  after every request, and so after any sequence of requests. An evaluation that succeeds
  (it returns the number of samples, which is not 0) has appended exactly one pair
  (round, value) to each series, holding the values it returns; an evaluation that returns
  the fallback has left the history as it was.
\<close>

theorem metrics_history_aligned:
  "series_aligned (metrics_history (FeSEMClient m X y))
   \<and> (series_aligned (metrics_history self) \<longrightarrow>
        series_aligned (metrics_history (serve env self r)))
   \<and> series_aligned (metrics_history (serve_all env (FeSEMClient m X y) requests))
   \<and> (fst (evaluate env p self) = Inr (l, n, ms) \<and> 0 < n \<longrightarrow>
        (\<exists>a f. ms = [(''accuracy'', a), (''f1_score'', f)]
           \<and> metrics_history (snd (evaluate env p self)) =
               \<lparr>loss = loss (metrics_history self) @ [(round self, l)],
                accuracy = accuracy (metrics_history self) @ [(round self, a)],
                f1_score = f1_score (metrics_history self) @ [(round self, f)]\<rparr>))
   \<and> (fst (evaluate env p self) = Inr zero_metrics \<longrightarrow>
        metrics_history (snd (evaluate env p self)) = metrics_history self)"
proof -
  have init: "series_aligned (metrics_history (FeSEMClient m X y))"
    by (simp add: series_aligned_def FeSEMClient_def)
  then have "series_aligned (metrics_history (serve_all env (FeSEMClient m X y) requests))"
    by (rule serve_all_aligned)
  with init show ?thesis
    using serve_aligned evaluate_success_appends evaluate_fallback_keeps by blast
qed

lemma demo_set_global_weights:
  "set_global_weights demo_env m (NotParameters ws) =
     (if map length ws = map length m then Inr ws else Inl ValueError)"
  by (simp add: set_global_weights_def demo_env_def)

lemma demo_evaluation_block:
  "evaluation_block demo_env m [[Fin 1]] [0] sw = Inr (Fin 1, Fin 1, Fin 1)"
  by (simp add: evaluation_block_def demo_env_def upt_rec)

lemma demo_compile: "compile demo_env metrics weighted_metrics m = Inr m"
  by (simp add: demo_env_def)

lemma demo_np_save: "np_save demo_env h = Inr ()"
  by (simp add: demo_env_def)

lemma demo_evaluate_success:
  "evaluate demo_env (NotParameters [[Fin 2]]) (FeSEMClient [[Fin 0]] [[Fin 1]] [0]) =
     (Inr (Fin 1, 1, [(''accuracy'', Fin 1), (''f1_score'', Fin 1)]),
      \<lparr>model = [[Fin 2]], round = 0, X_labeled = [[Fin 1]], y_labeled = [0],
       metrics_history = \<lparr>loss = [(0, Fin 1)], accuracy = [(0, Fin 1)], f1_score = [(0, Fin 1)]\<rparr>\<rparr>)"
  by (simp add: evaluate_def demo_set_global_weights sample_weights_single demo_evaluation_block
      demo_compile demo_np_save FeSEMClient_def Let_def)

lemma demo_evaluate_empty:
  "evaluate demo_env (NotParameters [[Fin 2]]) (FeSEMClient [[Fin 0]] [] []) =
     (Inr zero_metrics, FeSEMClient [[Fin 2]] [] [])"
  by (simp add: evaluate_def demo_set_global_weights sample_weights_def class_weights_def
      np_unique_def demo_compile FeSEMClient_def Let_def)

theorem metrics_history_aligned_witness:
  "fst (evaluate demo_env (NotParameters [[Fin 2]]) (FeSEMClient [[Fin 0]] [[Fin 1]] [0]))
     = Inr (Fin 1, 1, [(''accuracy'', Fin 1), (''f1_score'', Fin 1)])
   \<and> (0::nat) < 1
   \<and> metrics_history
        (snd (evaluate demo_env (NotParameters [[Fin 2]]) (FeSEMClient [[Fin 0]] [[Fin 1]] [0])))
     = \<lparr>loss = [(0, Fin 1)], accuracy = [(0, Fin 1)], f1_score = [(0, Fin 1)]\<rparr>
   \<and> fst (evaluate demo_env (NotParameters [[Fin 2]]) (FeSEMClient [[Fin 0]] [] []))
     = Inr zero_metrics
   \<and> metrics_history (snd (evaluate demo_env (NotParameters [[Fin 2]]) (FeSEMClient [[Fin 0]] [] [])))
     = \<lparr>loss = [], accuracy = [], f1_score = []\<rparr>
   \<and> series_aligned (metrics_history (FeSEMClient [[Fin 0]] [[Fin 1]] [0]))
   \<and> series_aligned (metrics_history
        (serve demo_env (FeSEMClient [[Fin 0]] [[Fin 1]] [0]) (Evaluate (NotParameters [[Fin 2]]))))"
proof -
  let ?p = "NotParameters [[Fin 2]] :: ndarray list received"
  let ?c = "FeSEMClient [[Fin 0]] [[Fin 1]] [0] :: ndarray list client"
  let ?d = "FeSEMClient [[Fin 0]] [] [] :: ndarray list client"
  note inst = metrics_history_aligned [where env = demo_env and p = ?p and m = "[[Fin 0]]"
      and X = "[[Fin 1]]" and y = "[0]" and r = "Evaluate ?p" and requests = "[]"]
  have a: "fst (evaluate demo_env ?p ?c) = Inr (Fin 1, 1, [(''accuracy'', Fin 1), (''f1_score'', Fin 1)])"
    by (simp add: demo_evaluate_success)
  have b: "fst (evaluate demo_env ?p ?d) = Inr zero_metrics"
    by (simp add: demo_evaluate_empty)
  have "metrics_history (snd (evaluate demo_env ?p ?c))
      = \<lparr>loss = [(0, Fin 1)], accuracy = [(0, Fin 1)], f1_score = [(0, Fin 1)]\<rparr>"
    using a inst [where self = ?c and l = "Fin 1" and n = 1
        and ms = "[(''accuracy'', Fin 1), (''f1_score'', Fin 1)]"]
    by (auto simp: FeSEMClient_def)
  moreover have "metrics_history (snd (evaluate demo_env ?p ?d)) = \<lparr>loss = [], accuracy = [], f1_score = []\<rparr>"
    using b inst [where self = ?d] by (simp add: FeSEMClient_def)
  moreover have "series_aligned (metrics_history ?c)"
    using inst [where self = ?c] by simp
  moreover have "series_aligned (metrics_history (serve demo_env ?c (Evaluate ?p)))"
    using inst [where self = ?c] by blast
  ultimately show ?thesis using a b by simp
qed

subsection \<open>Evaluation fallback\<close>




subsection \<open>Soft failure of a training round\<close>

lemma fit_result_soft:
  assumes "h = [] \<or> map_of h ''loss'' = None
     \<or> (\<exists>losses. map_of h ''loss'' = Some losses \<and> list_ex isnan losses)"
  shows "fit_result h ws n = Inr (ws, n, [(''loss'', Fin 0)])"
  using assms by (auto simp: fit_result_def dict_get_def)

text \<open>
  Claim C7, as the code has it. When the history that \<^verbatim>\<open>model.fit\<close> returned is empty, has no
  \<^verbatim>\<open>'loss'\<close> entry, or holds a NaN among its losses, \<^verbatim>\<open>fit\<close> returns, without raising, the
  weights the model holds after the training call, whatever training has made of them,
  with the number of samples and the loss 0.0; in the client only the round counter and
  the model, as training left it, have changed.
\<close>

theorem fit_soft_failure:
  assumes "set_global_weights env (model self) p = Inr m1"
    and "sample_weights (y_labeled self) = Inr sw"
    and "compile env [''accuracy''] [] m1 = Inr m2"
    and "keras_fit env m2 (X_labeled self) (y_labeled self) 5 64 sw lr_schedule 3 = (Inr h, m3)"
    and "h = [] \<or> map_of h ''loss'' = None
         \<or> (\<exists>losses. map_of h ''loss'' = Some losses \<and> list_ex isnan losses)"
  shows "fit env p self =
     (Inr (get_weights env m3, length (X_labeled self), [(''loss'', Fin 0)]),
      self\<lparr>round := round self + 1, model := m3\<rparr>)"
  using assms(1-4) fit_result_soft [OF assms(5)]
  by (simp add: fit_def Let_def)

theorem fit_soft_failure_witness:
  "fit (demo_env\<lparr>keras_fit := \<lambda>m X y epochs batch_size sw schedule patience.
          (Inr [(''loss'', [Fin 1, NaN]), (''accuracy'', [Fin 1, Fin 1])], [[NaN]])\<rparr>)
     (NotParameters [[Fin 2]]) (FeSEMClient [[Fin 0]] [[Fin 1]] [0])
   = (Inr ([[NaN]], 1, [(''loss'', Fin 0)]),
      \<lparr>model = [[NaN]], round = 1, X_labeled = [[Fin 1]], y_labeled = [0],
       metrics_history = \<lparr>loss = [], accuracy = [], f1_score = []\<rparr>\<rparr>)"
proof -
  let ?h = "[(''loss'', [Fin 1, NaN]), (''accuracy'', [Fin 1, Fin 1])]"
  let ?env = "demo_env\<lparr>keras_fit := \<lambda>m X y epochs batch_size sw schedule patience.
          (Inr ?h, [[NaN]])\<rparr>"
  let ?c = "FeSEMClient [[Fin 0]] [[Fin 1]] [0] :: ndarray list client"
  have a: "set_global_weights ?env (model ?c) (NotParameters [[Fin 2]]) = Inr [[Fin 2]]"
    by (simp add: set_global_weights_def demo_env_def FeSEMClient_def)
  have b: "sample_weights (y_labeled ?c) = Inr [1]"
    by (simp add: sample_weights_single FeSEMClient_def)
  have c: "compile ?env [''accuracy''] [] [[Fin 2]] = Inr [[Fin 2]]"
    by (simp add: demo_env_def)
  have d: "keras_fit ?env [[Fin 2]] (X_labeled ?c) (y_labeled ?c) 5 64 [1] lr_schedule 3
      = (Inr ?h, [[NaN]])"
    by simp
  have e: "?h = [] \<or> map_of ?h ''loss'' = None
      \<or> (\<exists>losses. map_of ?h ''loss'' = Some losses \<and> list_ex isnan losses)"
    by (simp add: isnan_def)
  have g: "get_weights ?env [[NaN]] = [[NaN]]"
    by (simp add: demo_env_def)
  show ?thesis
    using fit_soft_failure [OF a b c d e] g by (simp add: FeSEMClient_def)
qed

text \<open>
  The claim as the specification words it fails where it says that the weights are
  returned unchanged. \<^verbatim>\<open>model.fit\<close> trains the model in place and \<^verbatim>\<open>model.get_weights()\<close> is read
  afterwards. Below, the training call ends with a NaN loss and leaves a NaN weight: the
  weights that \<^verbatim>\<open>fit\<close> returns are neither those the model held before the round nor those
  received from the coordinator, and the next \<^verbatim>\<open>get_parameters\<close> raises.
\<close>

theorem fit_soft_failure_counterexample:
  "get_weights demo_env (model (FeSEMClient [[Fin 0]] [[Fin 1]] [0])) = [[Fin 0]]
   \<and> fst (fit (demo_env\<lparr>keras_fit := \<lambda>m X y epochs batch_size sw schedule patience.
                 (Inr [(''loss'', [NaN])], [[NaN]])\<rparr>)
            (NotParameters [[Fin 2]]) (FeSEMClient [[Fin 0]] [[Fin 1]] [0]))
       = Inr ([[NaN]], 1, [(''loss'', Fin 0)])
   \<and> [[NaN]] \<noteq> [[Fin 0]] \<and> [[NaN]] \<noteq> [[Fin 2]]
   \<and> fst (get_parameters (demo_env\<lparr>keras_fit := \<lambda>m X y epochs batch_size sw schedule patience.
                 (Inr [(''loss'', [NaN])], [[NaN]])\<rparr>)
            (snd (fit (demo_env\<lparr>keras_fit := \<lambda>m X y epochs batch_size sw schedule patience.
                 (Inr [(''loss'', [NaN])], [[NaN]])\<rparr>)
            (NotParameters [[Fin 2]]) (FeSEMClient [[Fin 0]] [[Fin 1]] [0]))))
       = Inl ValueError"
proof -
  let ?env = "demo_env\<lparr>keras_fit := \<lambda>m X y epochs batch_size sw schedule patience.
                 (Inr [(''loss'', [NaN])], [[NaN]])\<rparr>"
  let ?c = "FeSEMClient [[Fin 0]] [[Fin 1]] [0] :: ndarray list client"
  have s: "set_global_weights ?env [[Fin 0]] (NotParameters [[Fin 2]]) = Inr [[Fin 2]]"
    by (simp add: set_global_weights_def demo_env_def)
  have g: "get_weights demo_env m = m" for m
    by (simp add: demo_env_def)
  have r: "fit_result [(''loss'', [NaN])] ws n = Inr (ws, n, [(''loss'', Fin 0)])" for ws n
    by (simp add: fit_result_def dict_get_def isnan_def)
  have f: "fit ?env (NotParameters [[Fin 2]]) ?c
      = (Inr ([[NaN]], 1, [(''loss'', Fin 0)]),
         \<lparr>model = [[NaN]], round = 1, X_labeled = [[Fin 1]], y_labeled = [0],
          metrics_history = \<lparr>loss = [], accuracy = [], f1_score = []\<rparr>\<rparr>)"
    by (simp add: fit_def s sample_weights_single demo_compile g r FeSEMClient_def Let_def)
  have p: "fst (get_parameters ?env
         \<lparr>model = [[NaN]], round = 1, X_labeled = [[Fin 1]], y_labeled = [0],
          metrics_history = \<lparr>loss = [], accuracy = [], f1_score = []\<rparr>\<rparr>) = Inl ValueError"
    by (simp add: get_parameters_def g isnan_def Let_def)
  have w: "get_weights demo_env (model ?c) = [[Fin 0]]"
    by (simp add: demo_env_def FeSEMClient_def)
  show ?thesis
    by (simp only: f p w fst_conv snd_conv) simp
qed

subsection \<open>Integrity check of the weights\<close>

text \<open>
  Claim C3, as the code has it. The check of the weights runs in one direction only, in
  \<^verbatim>\<open>get_parameters\<close>: it raises \<^verbatim>\<open>ValueError\<close> exactly when an array of the model's weights
  holds a NaN, and returns the weights otherwise, infinite values included. \<^verbatim>\<open>fit\<close> and
  \<^verbatim>\<open>evaluate\<close> have no test of the values they receive: the weights that the conversions
  yield go to \<^verbatim>\<open>set_weights\<close> as they are, and what \<^verbatim>\<open>set_weights\<close> answers is what
  happens.
\<close>

theorem weights_nan_check:
  "(has_nan (get_weights env (model self)) \<longrightarrow> get_parameters env self = (Inl ValueError, self))
   \<and> (\<not> has_nan (get_weights env (model self)) \<longrightarrow>
        get_parameters env self = (Inr (get_weights env (model self)), self))
   \<and> (parameters_to_ndarrays env q = Inr ws \<longrightarrow>
        set_global_weights env m (IsParameters q) = set_weights env m ws)
   \<and> (ndarrays_to_parameters env arrays = Inr q \<and> parameters_to_ndarrays env q = Inr ws \<longrightarrow>
        set_global_weights env m (NotParameters arrays) = set_weights env m ws)"
  by (simp add: get_parameters_def has_nan_def set_global_weights_def Let_def)

theorem weights_nan_check_witness:
  "has_nan (get_weights demo_env (model (FeSEMClient [[Fin 1, NaN]] [[Fin 1]] [0])))
   \<and> get_parameters demo_env (FeSEMClient [[Fin 1, NaN]] [[Fin 1]] [0])
       = (Inl ValueError, FeSEMClient [[Fin 1, NaN]] [[Fin 1]] [0])
   \<and> \<not> has_nan (get_weights demo_env (model (FeSEMClient [[Fin 1, PInf]] [[Fin 1]] [0])))
   \<and> get_parameters demo_env (FeSEMClient [[Fin 1, PInf]] [[Fin 1]] [0])
       = (Inr [[Fin 1, PInf]], FeSEMClient [[Fin 1, PInf]] [[Fin 1]] [0])
   \<and> parameters_to_ndarrays demo_env [[NInf]] = Inr [[NInf]]
   \<and> ndarrays_to_parameters demo_env [[NInf]] = Inr [[NInf]]
   \<and> set_global_weights demo_env [[Fin 0]] (IsParameters [[NInf]]) = Inr [[NInf]]
   \<and> set_global_weights demo_env [[Fin 0]] (NotParameters [[NInf]]) = Inr [[NInf]]"
proof -
  let ?c = "FeSEMClient [[Fin 1, NaN]] [[Fin 1]] [0] :: ndarray list client"
  let ?d = "FeSEMClient [[Fin 1, PInf]] [[Fin 1]] [0] :: ndarray list client"
  have a: "has_nan (get_weights demo_env (model ?c))"
    by (simp add: has_nan_def isnan_def demo_env_def FeSEMClient_def)
  have b: "\<not> has_nan (get_weights demo_env (model ?d))"
    by (simp add: has_nan_def isnan_def demo_env_def FeSEMClient_def)
  have c: "parameters_to_ndarrays demo_env [[NInf]] = Inr [[NInf]]"
    and d: "ndarrays_to_parameters demo_env [[NInf]] = Inr [[NInf]]"
    and e: "set_weights demo_env [[Fin 0]] [[NInf]] = Inr [[NInf]]"
    and g: "get_weights demo_env (model ?d) = [[Fin 1, PInf]]"
    by (simp_all add: demo_env_def FeSEMClient_def)
  have "get_parameters demo_env ?c = (Inl ValueError, ?c)"
    using a weights_nan_check [of demo_env ?c] by blast
  moreover have "get_parameters demo_env ?d = (Inr [[Fin 1, PInf]], ?d)"
    using b g weights_nan_check [of demo_env ?d] by simp
  moreover have "set_global_weights demo_env [[Fin 0]] (IsParameters [[NInf]]) = Inr [[NInf]]"
    using c e weights_nan_check [of demo_env _ "[[NInf]]" "[[NInf]]" "[[Fin 0]]"] by simp
  moreover have "set_global_weights demo_env [[Fin 0]] (NotParameters [[NInf]]) = Inr [[NInf]]"
    using c d e weights_nan_check [of demo_env _ "[[NInf]]" "[[NInf]]" "[[Fin 0]]" "[[NInf]]"] by simp
  ultimately show ?thesis using a b c d by simp
qed

text \<open>
  The claim as worded fails in each place it names: \<^verbatim>\<open>fit\<close> and \<^verbatim>\<open>evaluate\<close> accept weights
  holding a NaN and return normally, and \<^verbatim>\<open>get_parameters\<close> sends an infinite weight.
\<close>

lemma demo_fit_nan:
  "fit demo_env (NotParameters [[NaN]]) (FeSEMClient [[Fin 0]] [[Fin 1]] [0])
     = (Inr ([[NaN]], 1, [(''loss'', Fin 1)]),
        \<lparr>model = [[NaN]], round = 1, X_labeled = [[Fin 1]], y_labeled = [0],
         metrics_history = \<lparr>loss = [], accuracy = [], f1_score = []\<rparr>\<rparr>)"
proof -
  have k: "keras_fit demo_env m X y epochs batch_size sw schedule patience
      = (Inr [(''loss'', [Fin 1]), (''accuracy'', [Fin 1])], m)"
    for m X y epochs batch_size sw schedule patience
    by (simp add: demo_env_def)
  have g: "get_weights demo_env m = m" for m
    by (simp add: demo_env_def)
  have r: "fit_result [(''loss'', [Fin 1]), (''accuracy'', [Fin 1])] ws n
      = Inr (ws, n, [(''loss'', Fin 1)])" for ws n
    by (simp add: fit_result_def dict_get_def last_item_def isnan_def)
  show ?thesis
    by (simp add: fit_def demo_set_global_weights sample_weights_single demo_compile k g r
        FeSEMClient_def Let_def)
qed

lemma demo_evaluate_nan:
  "evaluate demo_env (NotParameters [[NaN]]) (FeSEMClient [[Fin 0]] [[Fin 1]] [0]) =
     (Inr (Fin 1, 1, [(''accuracy'', Fin 1), (''f1_score'', Fin 1)]),
      \<lparr>model = [[NaN]], round = 0, X_labeled = [[Fin 1]], y_labeled = [0],
       metrics_history = \<lparr>loss = [(0, Fin 1)], accuracy = [(0, Fin 1)], f1_score = [(0, Fin 1)]\<rparr>\<rparr>)"
  by (simp add: evaluate_def demo_set_global_weights sample_weights_single demo_evaluation_block
      demo_compile demo_np_save FeSEMClient_def Let_def)

theorem weights_check_counterexample:
  "has_nan [[NaN]]
   \<and> fst (fit demo_env (NotParameters [[NaN]]) (FeSEMClient [[Fin 0]] [[Fin 1]] [0]))
       = Inr ([[NaN]], 1, [(''loss'', Fin 1)])
   \<and> fst (evaluate demo_env (NotParameters [[NaN]]) (FeSEMClient [[Fin 0]] [[Fin 1]] [0]))
       = Inr (Fin 1, 1, [(''accuracy'', Fin 1), (''f1_score'', Fin 1)])
   \<and> list_ex (list_ex isinf) [[Fin 1, PInf]]
   \<and> fst (get_parameters demo_env (FeSEMClient [[Fin 1, PInf]] [[Fin 1]] [0])) = Inr [[Fin 1, PInf]]"
proof -
  have "fst (get_parameters demo_env (FeSEMClient [[Fin 1, PInf]] [[Fin 1]] [0])) = Inr [[Fin 1, PInf]]"
    by (simp add: get_parameters_def isnan_def demo_env_def FeSEMClient_def Let_def)
  then show ?thesis
    by (simp add: demo_fit_nan demo_evaluate_nan has_nan_def isnan_def isinf_def)
qed

subsection \<open>Balancing happens once, at start-up\<close>

















end
